theory Spec2Isabelle
  imports Main "HOL-Library.Sublist" "HOL-Library.Multiset"
begin

section \<open>JavaScript strings\<close>

text \<open>
  A JavaScript string is modelled as a \<^typ>\<open>string\<close>, one \<^typ>\<open>char\<close> per code unit; the
  model covers ASCII text, on which \<open>toLowerCase\<close> changes the letters A to Z only.
\<close>

definition toLowerChar :: "char \<Rightarrow> char" where
  "toLowerChar c =
     (case map_of (zip ''ABCDEFGHIJKLMNOPQRSTUVWXYZ'' ''abcdefghijklmnopqrstuvwxyz'') c of
        Some l \<Rightarrow> l
      | None \<Rightarrow> c)"

definition toLowerCase :: "string \<Rightarrow> string" where
  "toLowerCase s = map toLowerChar s"

text \<open>\<open>s.startsWith(t)\<close>, \<open>s.endsWith(t)\<close> and \<open>s.includes(t)\<close> (\<open>includesStr\<close>).\<close>

definition startsWith :: "string \<Rightarrow> string \<Rightarrow> bool" where
  "startsWith s t = (take (length t) s = t)"

definition endsWith :: "string \<Rightarrow> string \<Rightarrow> bool" where
  "endsWith s t = startsWith (rev s) (rev t)"

fun includesStr :: "string \<Rightarrow> string \<Rightarrow> bool" where
  "includesStr [] t = (t = [])"
| "includesStr (c # cs) t = (startsWith (c # cs) t \<or> includesStr cs t)"

text \<open>
  \<open>s.split(sep)\<close> for a one-character separator: a string with \<open>n\<close> separators gives
  \<open>n + 1\<close> parts, and the empty string gives one empty part.
\<close>

fun split :: "char \<Rightarrow> string \<Rightarrow> string list" where
  "split sep [] = [[]]"
| "split sep (c # cs) =
     (if c = sep then [] # split sep cs
      else (case split sep cs of
              p # ps \<Rightarrow> (c # p) # ps
            | [] \<Rightarrow> [[c]]))"

text \<open>\<open>parts.join(sep)\<close> for a one-character separator.\<close>

fun join :: "char \<Rightarrow> string list \<Rightarrow> string" where
  "join sep [] = []"
| "join sep [p] = p"
| "join sep (p # q # ps) = p @ sep # join sep (q # ps)"

text \<open>\<open>s.substring(0, n)\<close> is \<^term>\<open>take n s\<close>.\<close>

definition substring0 :: "string \<Rightarrow> nat \<Rightarrow> string" where
  "substring0 s n = take n s"

text \<open>The decimal text of a number in a template literal.\<close>

definition digit :: "nat \<Rightarrow> char" where
  "digit d = ''0123456789'' ! d"

function showNat :: "nat \<Rightarrow> string" where
  "showNat n = (if n < 10 then [digit n] else showNat (n div 10) @ [digit (n mod 10)])"
  by pat_completeness auto
termination
  by (relation "measure id") auto

declare showNat.simps [simp del]

section \<open>Data model\<close>

text \<open>An entry of the tree listing: \<open>{ path, type }\<close>.\<close>

record tree_entry =
  entry_path :: string
  entry_type :: string

text \<open>
  A fetched file. The earlier revision of the route keeps \<open>{ path, content }\<close>, the later
  one \<open>{ path, content, size, priority }\<close>.
\<close>

record file_base =
  path :: string
  content :: string

record source_file = file_base +
  size :: nat
  priority :: nat

text \<open>The target of a run: \<open>{ language, framework, database }\<close>.\<close>

record target_spec =
  language :: string
  framework :: string
  database :: string

text \<open>
  A parsed JSON value. The entries of the result are JavaScript objects, the ones of the
  model's reply as they were parsed and the ones the fallback builds, so they are JSON
  values too. A number is only ever tested for being falsy, so an integer stands for it;
  an object lists each of its keys once.
\<close>

datatype json =
    JNull
  | JBool bool
  | JNum int
  | JStr string
  | JArr "json list"
  | JObj "(string \<times> json) list"

text \<open>\<open>v.k\<close> on a parsed value: \<open>None\<close> is \<open>undefined\<close>.\<close>

fun getProp :: "json \<Rightarrow> string \<Rightarrow> json option" where
  "getProp (JObj kvs) k = map_of kvs k"
| "getProp _ k = None"

text \<open>\<open>!v\<close> is \<^term>\<open>\<not> truthy v\<close>; \<open>undefined\<close> is falsy.\<close>

fun truthy :: "json \<Rightarrow> bool" where
  "truthy JNull = False"
| "truthy (JBool b) = b"
| "truthy (JNum n) = (n \<noteq> 0)"
| "truthy (JStr s) = (s \<noteq> [])"
| "truthy (JArr _) = True"
| "truthy (JObj _) = True"

definition truthyOpt :: "json option \<Rightarrow> bool" where
  "truthyOpt v = (case v of None \<Rightarrow> False | Some x \<Rightarrow> truthy x)"

text \<open>\<open>typeof v === 'string'\<close>.\<close>

fun isString :: "json option \<Rightarrow> bool" where
  "isString (Some (JStr _)) = True"
| "isString _ = False"

section \<open>File Selector\<close>

text \<open>
  \<open>isRelevantFile\<close>: the skip patterns are substring tests, but for \<open>\.DS_Store$\<close> and
  \<open>\.log$\<close>, which test the end of the path; the extension test and the test of the file
  name ignore case.
\<close>

definition skipPatterns :: "(string \<Rightarrow> bool) list" where
  "skipPatterns =
     [\<lambda>p. includesStr p ''node_modules/'',
      \<lambda>p. includesStr p ''.git/'',
      \<lambda>p. endsWith p ''.DS_Store'',
      \<lambda>p. endsWith p ''.log'',
      \<lambda>p. includesStr p ''.cache/'',
      \<lambda>p. includesStr p ''dist/'',
      \<lambda>p. includesStr p ''build/'',
      \<lambda>p. includesStr p ''coverage/'',
      \<lambda>p. includesStr p ''.nyc_output/'',
      \<lambda>p. includesStr p ''.vscode/'',
      \<lambda>p. includesStr p ''.idea/'']"

definition relevantExtensionList :: "string list" where
  "relevantExtensionList =
     [''ts'', ''tsx'', ''js'', ''jsx'', ''py'', ''cs'', ''java'', ''go'', ''rs'', ''php'', ''rb'',
      ''kt'', ''scala'', ''sql'', ''sh'', ''yml'', ''yaml'', ''json'', ''html'', ''css'', ''scss'',
      ''less'', ''md'', ''txt'', ''env'', ''gitignore'', ''toml'', ''xml'', ''properties'', ''conf'',
      ''ini'', ''dockerfile'', ''makefile'', ''gradle'', ''maven'', ''pom'', ''package'', ''lock'',
      ''requirements'', ''gemfile'', ''cargo'', ''composer'']"

definition relevantExtensions :: "string \<Rightarrow> bool" where
  "relevantExtensions p =
     list_ex (\<lambda>e. endsWith (toLowerCase p) (CHR ''.'' # e)) relevantExtensionList"

definition importantFileList :: "string list" where
  "importantFileList =
     [''dockerfile'', ''makefile'', ''rakefile'', ''gulpfile'', ''gruntfile'', ''webpack.config'',
      ''rollup.config'', ''vite.config'', ''tsconfig'', ''jsconfig'', ''babel.config'', ''eslint'',
      ''prettier'', ''package'', ''requirements'', ''gemfile'', ''cargo'', ''composer'']"

definition importantFiles :: "string \<Rightarrow> bool" where
  "importantFiles f = (toLowerCase f \<in> set importantFileList)"

definition isRelevantFile :: "string \<Rightarrow> bool" where
  "isRelevantFile p =
     (if list_ex (\<lambda>pattern. pattern p) skipPatterns then False
      else (let filename = last (split CHR ''/'' p)
            in relevantExtensions p \<or> importantFiles filename))"

text \<open>\<open>getFilePriority\<close>: the tests are on the whole lower-cased path.\<close>

definition getFilePriority :: "string \<Rightarrow> nat" where
  "getFilePriority p =
     (let filename = toLowerCase p
      in if includesStr filename ''package.json'' \<or> includesStr filename ''requirements.txt'' \<or>
            includesStr filename ''gemfile'' \<or> includesStr filename ''cargo.toml'' \<or>
            includesStr filename ''pom.xml'' \<or> includesStr filename ''composer.json''
         then 1
         else if includesStr filename ''main'' \<or> includesStr filename ''index'' \<or>
                 includesStr filename ''app.'' \<or> includesStr filename ''server.''
         then 2
         else 3)"

section \<open>Fallback Generator\<close>

definition targetExt :: "string \<Rightarrow> string" where
  "targetExt lang =
     (let l = toLowerCase lang
      in if l = ''python'' then ''.py''
         else if l = ''javascript'' \<or> l = ''node.js'' then ''.js''
         else if l = ''typescript'' then ''.ts''
         else if l = ''java'' then ''.java''
         else if l = ''c#'' \<or> l = ''csharp'' then ''.cs''
         else if l = ''go'' then ''.go''
         else ''.txt'')"

definition newPath :: "source_file \<Rightarrow> target_spec \<Rightarrow> string" where
  "newPath file target =
     (let pathParts = split CHR ''.'' (path file)
      in join CHR ''.'' (butlast pathParts) @ targetExt (language target))"

definition nl :: string where
  "nl = [CHR 0x0A]"

definition fallbackContent :: "source_file \<Rightarrow> target_spec \<Rightarrow> string" where
  "fallbackContent file target =
     ''// FALLBACK CONVERSION - NEEDS MANUAL REVIEW'' @ nl @
     ''// Original file: '' @ path file @ nl @
     ''// Target: '' @ language target @ '' with '' @ framework target @ nl @
     ''// TODO: Convert the following original content to '' @ language target @ nl @
     nl @
     ''/*'' @ nl @
     ''Original content:'' @ nl @
     substring0 (content file) 1000 @
     (if length (content file) > 1000 then nl @ ''... (truncated)'' else []) @ nl @
     ''*/'' @ nl @
     nl @
     ''// Add your converted '' @ language target @ '' code here''"

definition createFallbackFile :: "target_spec \<Rightarrow> source_file \<Rightarrow> json" where
  "createFallbackFile target file =
     JObj [(''path'', JStr (newPath file target)),
           (''content'', JStr (fallbackContent file target)),
           (''originalPath'', JStr (path file)),
           (''isFallback'', JBool True)]"

definition createFallbackFiles :: "source_file list \<Rightarrow> target_spec \<Rightarrow> json list" where
  "createFallbackFiles batch target = map (createFallbackFile target) batch"

section \<open>The outside world\<close>

text \<open>
  What the run receives from outside: the answers of the source-control host, the
  environment variable with the key, the answer of the model service to the request made
  for each batch (numbered from 1), and the two library functions whose result the code
  consumes, \<open>String.prototype.localeCompare\<close> and \<open>JSON.parse\<close> (\<open>Inl\<close> is the message
  of the \<open>SyntaxError\<close>).
\<close>

datatype llm_result =
    FetchFailed string
  | HttpError nat string
  | Reply string

record world =
  branch_sha :: "string + string option"
  tree_listing :: "string + tree_entry list"
  file_content :: "string \<Rightarrow> string option"
  localeCompare :: "string \<Rightarrow> string \<Rightarrow> int"
  openrouter_key :: bool
  llm :: "nat \<Rightarrow> llm_result"
  json_parse :: "string \<Rightarrow> string + json"

section \<open>File Fetcher\<close>

definition compareFiles :: "world \<Rightarrow> tree_entry \<Rightarrow> tree_entry \<Rightarrow> int" where
  "compareFiles w a b =
     (let priorityA = getFilePriority (entry_path a);
          priorityB = getFilePriority (entry_path b)
      in if priorityA \<noteq> priorityB then int priorityA - int priorityB
         else localeCompare w (entry_path a) (entry_path b))"

text \<open>\<open>Array.prototype.sort\<close> with a comparator, as a stable insertion sort.\<close>

fun insertSorted :: "('a \<Rightarrow> 'a \<Rightarrow> int) \<Rightarrow> 'a \<Rightarrow> 'a list \<Rightarrow> 'a list" where
  "insertSorted cmp x [] = [x]"
| "insertSorted cmp x (y # ys) =
     (if cmp x y \<le> 0 then x # y # ys else y # insertSorted cmp x ys)"

definition sortWith :: "('a \<Rightarrow> 'a \<Rightarrow> int) \<Rightarrow> 'a list \<Rightarrow> 'a list" where
  "sortWith cmp xs = foldr (insertSorted cmp) xs []"

text \<open>
  One request for a file's content: \<open>None\<close> is the \<open>null\<close> of a failed request and of a
  file of more than 100000 characters.
\<close>

definition fetchOne :: "world \<Rightarrow> tree_entry \<Rightarrow> source_file option" where
  "fetchOne w f =
     (case file_content w (entry_path f) of
        None \<Rightarrow> None
      | Some decoded \<Rightarrow>
          if length decoded > 100000 then None
          else Some \<lparr>path = entry_path f, content = decoded, size = length decoded,
                     priority = getFilePriority (entry_path f)\<rparr>)"

text \<open>
  The loop over windows of \<open>batchSize\<close> entries; \<open>filter(Boolean)\<close> drops the nulls. The
  delay between two windows, like the one between two batches below, changes no result
  and is left out.
\<close>

function fetchWindows :: "nat \<Rightarrow> ('e \<Rightarrow> 'f option) \<Rightarrow> 'e list \<Rightarrow> 'f list" where
  "fetchWindows batchSize fetch filesToProcess =
     (if filesToProcess = [] \<or> batchSize = 0 then []
      else List.map_filter fetch (take batchSize filesToProcess) @
           fetchWindows batchSize fetch (drop batchSize filesToProcess))"
  by pat_completeness auto
termination
  by (relation "measure (\<lambda>(batchSize, fetch, filesToProcess). length filesToProcess)") auto

declare fetchWindows.simps [simp del]

definition fetchFiles :: "world \<Rightarrow> string \<Rightarrow> string + source_file list" where
  "fetchFiles w branchName =
     (case branch_sha w of
        Inl err \<Rightarrow> Inl err
      | Inr sha \<Rightarrow>
          if sha = None \<or> sha = Some [] then Inl (''Could not find SHA for branch '' @ branchName)
          else (case tree_listing w of
                  Inl err \<Rightarrow> Inl err
                | Inr tree \<Rightarrow>
                    (let allFiles =
                           filter (\<lambda>n. entry_type n = ''blob'' \<and> isRelevantFile (entry_path n)) tree;
                         sortedFiles = sortWith (compareFiles w) allFiles;
                         filesToProcess = take 200 sortedFiles
                     in Inr (fetchWindows 10 (fetchOne w) filesToProcess))))"

section \<open>Batch Planner\<close>

record 'f planner_state =
  batches :: "'f list list"
  currentBatch :: "'f list"
  currentSize :: nat

definition planInit :: "'f planner_state" where
  "planInit = \<lparr>batches = [], currentBatch = [], currentSize = 0\<rparr>"

text \<open>The body of the loop over the files.\<close>

definition planStep ::
  "nat \<Rightarrow> ('a file_base_scheme) planner_state \<Rightarrow> 'a file_base_scheme \<Rightarrow>
   ('a file_base_scheme) planner_state" where
  "planStep sizeLimit st file =
     (let fileSize = length (content file);
          st1 = (if currentSize st + fileSize > sizeLimit \<and> length (currentBatch st) > 0
                 then \<lparr>batches = batches st @ [currentBatch st], currentBatch = [],
                       currentSize = 0\<rparr>
                 else st)
      in \<lparr>batches = batches st1, currentBatch = currentBatch st1 @ [file],
          currentSize = currentSize st1 + fileSize\<rparr>)"

text \<open>After the loop: the last batch is added if it has files.\<close>

definition planFinish :: "'f planner_state \<Rightarrow> 'f list list" where
  "planFinish st =
     (if length (currentBatch st) > 0 then batches st @ [currentBatch st] else batches st)"

text \<open>The earlier revision: one loop over the files in their order.\<close>

definition planBatches_v1 :: "nat \<Rightarrow> 'a file_base_scheme list \<Rightarrow> 'a file_base_scheme list list" where
  "planBatches_v1 sizeLimit originals = planFinish (foldl (planStep sizeLimit) planInit originals)"

text \<open>
  The later revision: the files are grouped by priority (\<open>config\<close>, \<open>main\<close>, \<open>others\<close>), and
  the loop runs over the groups in this order with one running batch.
\<close>

definition fileGroups :: "source_file list \<Rightarrow> source_file list list" where
  "fileGroups originals =
     [filter (\<lambda>f. priority f = 1) originals,
      filter (\<lambda>f. priority f = 2) originals,
      filter (\<lambda>f. priority f = 3) originals]"

definition planBatches :: "nat \<Rightarrow> source_file list \<Rightarrow> source_file list list" where
  "planBatches sizeLimit originals =
     planFinish (foldl (\<lambda>st files. foldl (planStep sizeLimit) st files) planInit
                   (fileGroups originals))"

section \<open>Conversion Engine\<close>

datatype engine_error =
    MissingKey
  | RequestFailed string
  | ApiError nat string
  | ParseFailed string
  | NoJson
  | MissingFilesArray
  | NoValidFiles nat

text \<open>The message of the \<open>Error\<close> the later revision throws.\<close>

fun errorMessage :: "engine_error \<Rightarrow> string" where
  "errorMessage MissingKey = ''Missing OPENROUTER_API_KEY environment variable''"
| "errorMessage (RequestFailed m) = m"
| "errorMessage (ApiError st errorText) =
     ''OpenRouter API error '' @ showNat st @ '': '' @ errorText"
| "errorMessage (ParseFailed m) = ''Failed to parse AI response as JSON: '' @ m"
| "errorMessage NoJson = ''AI response does not contain valid JSON''"
| "errorMessage MissingFilesArray = ''AI response missing files array''"
| "errorMessage (NoValidFiles batchIndex) =
     ''Batch '' @ showNat batchIndex @ '': No valid files in AI response''"

text \<open>
  The message of the earlier revision, which wraps every error raised after the check of
  the key.
\<close>

fun errorMessage_v1 :: "engine_error \<Rightarrow> string" where
  "errorMessage_v1 MissingKey = ''Missing OPENROUTER_API_KEY environment variable''"
| "errorMessage_v1 (RequestFailed m) = ''Failed to convert files: '' @ m"
| "errorMessage_v1 (ApiError st errorText) =
     ''Failed to convert files: '' @ ''OpenRouter API error '' @ showNat st @ '': '' @ errorText"
| "errorMessage_v1 (ParseFailed m) = ''Failed to convert files: AI returned invalid JSON format''"
| "errorMessage_v1 NoJson = ''Failed to convert files: AI did not return JSON format''"
| "errorMessage_v1 MissingFilesArray =
     ''Failed to convert files: AI returned invalid response structure''"
| "errorMessage_v1 (NoValidFiles batchIndex) =
     ''Failed to convert files: No valid converted files in AI response''"

text \<open>The failures of step 3 of the Engine's protocol.\<close>

fun isMalformedResponse :: "engine_error \<Rightarrow> bool" where
  "isMalformedResponse (ParseFailed m) = True"
| "isMalformedResponse NoJson = True"
| "isMalformedResponse _ = False"

text \<open>
  \<open>aiResponse.match(/\{[\s\S]*\}/)\<close>: the match starts at the first opening brace and the
  greedy star runs to the last closing brace after it; there is no match when no closing
  brace follows the first opening one.
\<close>

definition jsonMatch :: "string \<Rightarrow> string option" where
  "jsonMatch aiResponse =
     (let fromOpen = dropWhile (\<lambda>c. c \<noteq> CHR ''{'') aiResponse;
          matched = rev (dropWhile (\<lambda>c. c \<noteq> CHR ''}'') (rev fromOpen))
      in if matched = [] then None else Some matched)"

definition parseResponse :: "world \<Rightarrow> string \<Rightarrow> engine_error + json" where
  "parseResponse w aiResponse =
     (case json_parse w aiResponse of
        Inr parsed \<Rightarrow> Inr parsed
      | Inl e \<Rightarrow>
          (case jsonMatch aiResponse of
             Some m \<Rightarrow>
               (case json_parse w m of
                  Inr parsed \<Rightarrow> Inr parsed
                | Inl e2 \<Rightarrow> Inl (ParseFailed e2))
           | None \<Rightarrow> Inl NoJson))"

fun isArray :: "json option \<Rightarrow> bool" where
  "isArray (Some (JArr _)) = True"
| "isArray _ = False"

fun arrayItems :: "json option \<Rightarrow> json list" where
  "arrayItems (Some (JArr xs)) = xs"
| "arrayItems _ = []"

definition validFile :: "json \<Rightarrow> bool" where
  "validFile file =
     (if \<not> truthy file \<or> \<not> isString (getProp file ''path'') \<or>
         \<not> isString (getProp file ''content'')
      then False else True)"

text \<open>
  \<open>convertBatch\<close>. The batch goes into the prompt only, and the reply is the world's, so
  the batch does not occur on the right.
\<close>

definition convertBatch ::
  "world \<Rightarrow> 'f list \<Rightarrow> target_spec \<Rightarrow> nat \<Rightarrow> engine_error + json list" where
  "convertBatch w batch target batchIndex =
     (if \<not> openrouter_key w then Inl MissingKey
      else (case llm w batchIndex of
              FetchFailed m \<Rightarrow> Inl (RequestFailed m)
            | HttpError st errorText \<Rightarrow> Inl (ApiError st errorText)
            | Reply aiResponse \<Rightarrow>
                (case parseResponse w aiResponse of
                   Inl err \<Rightarrow> Inl err
                 | Inr parsed \<Rightarrow>
                     if \<not> truthy parsed \<or> \<not> isArray (getProp parsed ''files'')
                     then Inl MissingFilesArray
                     else (let validFiles = filter validFile (arrayItems (getProp parsed ''files''))
                           in if length validFiles = 0 then Inl (NoValidFiles batchIndex)
                              else Inr validFiles))))"

text \<open>
  \<open>convertBatch\<close> of the earlier revision: the same steps without a batch index;
  \<open>callNo\<close> numbers the request, to read the world's reply.
\<close>

definition convertBatch_v1 ::
  "world \<Rightarrow> nat \<Rightarrow> 'f list \<Rightarrow> target_spec \<Rightarrow> engine_error + json list" where
  "convertBatch_v1 w callNo batch target =
     (if \<not> openrouter_key w then Inl MissingKey
      else (case llm w callNo of
              FetchFailed m \<Rightarrow> Inl (RequestFailed m)
            | HttpError st errorText \<Rightarrow> Inl (ApiError st errorText)
            | Reply aiResponse \<Rightarrow>
                (case parseResponse w aiResponse of
                   Inl err \<Rightarrow> Inl err
                 | Inr parsed \<Rightarrow>
                     if \<not> truthy parsed \<or> \<not> isArray (getProp parsed ''files'')
                     then Inl MissingFilesArray
                     else (let validFiles = filter validFile (arrayItems (getProp parsed ''files''))
                           in if length validFiles = 0 then Inl (NoValidFiles callNo)
                              else Inr validFiles))))"

section \<open>Conversion Orchestrator\<close>

record request =
  token :: string
  owner :: string
  repo :: string
  branch :: string
  target :: "target_spec option"

record batch_result =
  br_batch :: nat
  br_status :: string
  br_error :: "string option"
  br_fileCount :: nat

record loop_state =
  converted :: "json list"
  failedFiles :: "source_file list"
  batchResults :: "batch_result list"

definition loopInit :: loop_state where
  "loopInit = \<lparr>converted = [], failedFiles = [], batchResults = []\<rparr>"

text \<open>The body of the loop over the batches, for \<open>batches[i]\<close>: the \<open>try\<close> and its \<open>catch\<close>.\<close>

definition processBatch ::
  "world \<Rightarrow> target_spec \<Rightarrow> loop_state \<Rightarrow> nat \<Rightarrow> source_file list \<Rightarrow> loop_state" where
  "processBatch w tgt st i b =
     (let batchIndex = i + 1
      in case convertBatch w b tgt batchIndex of
           Inr batchResult \<Rightarrow>
             \<lparr>converted = converted st @ batchResult,
              failedFiles = failedFiles st,
              batchResults = batchResults st @
                [\<lparr>br_batch = batchIndex, br_status = ''success'', br_error = None,
                  br_fileCount = length batchResult\<rparr>]\<rparr>
         | Inl conversionError \<Rightarrow>
             (let fallbackFiles = createFallbackFiles b tgt
              in \<lparr>converted = converted st @ fallbackFiles,
                  failedFiles = failedFiles st @ b,
                  batchResults = batchResults st @
                    [\<lparr>br_batch = batchIndex, br_status = ''fallback'',
                      br_error = Some (errorMessage conversionError),
                      br_fileCount = length fallbackFiles\<rparr>]\<rparr>))"

text \<open>The loop \<open>for (let i = 0; i < batches.length; i++)\<close>, from index \<open>i\<close> on.\<close>

fun batchLoop ::
  "world \<Rightarrow> target_spec \<Rightarrow> nat \<Rightarrow> source_file list list \<Rightarrow> loop_state \<Rightarrow> loop_state" where
  "batchLoop w tgt i [] st = st"
| "batchLoop w tgt i (b # bs) st = batchLoop w tgt (Suc i) bs (processBatch w tgt st i b)"

record summary =
  totalOriginalFiles :: nat
  totalConvertedFiles :: nat
  successfullyConverted :: nat
  fallbackFiles :: nat
  sum_batchResults :: "batch_result list"
  sum_target :: target_spec

record warnings =
  warn_message :: string
  warn_details :: string
  warn_fallbackFiles :: "json option list"

record ok_body =
  files :: "json list"
  message :: "string option"
  summary :: "summary option"
  warnings :: "warnings option"

text \<open>
  The response of the route: status 200 with its body, or status 400 or 500 with the
  \<open>error\<close> text (the time stamp of the 500 body is left out).
\<close>

datatype response =
    Ok200 ok_body
  | Error400 string
  | Error500 string

definition isFallback :: "json \<Rightarrow> bool" where
  "isFallback f = truthyOpt (getProp f ''isFallback'')"

definition sizeLimit :: nat where
  "sizeLimit = 80000"

definition convert :: "world \<Rightarrow> request \<Rightarrow> response" where
  "convert w req =
     (if token req = [] \<or> owner req = [] \<or> repo req = [] \<or> branch req = []
      then Error400 ''Missing required fields: token, owner, repo, branch''
      else (case target req of
          None \<Rightarrow>
            Error400 ''Missing target specification (language, framework, database required)''
        | Some tgt \<Rightarrow>
            if language tgt = [] \<or> framework tgt = [] \<or> database tgt = []
            then Error400 ''Missing target specification (language, framework, database required)''
            else (case fetchFiles w (branch req) of
                Inl err \<Rightarrow> Error500 err
              | Inr originals \<Rightarrow>
                  if length originals = 0
                  then Ok200 \<lparr>files = [],
                              message = Some ''No relevant files found in repository'',
                              summary = None, warnings = None\<rparr>
                  else (let batches = planBatches sizeLimit originals;
                            st = batchLoop w tgt 0 batches loopInit;
                            fallbackBatches =
                              length (filter (\<lambda>b. br_status b = ''fallback'') (batchResults st))
                        in Ok200
                             \<lparr>files = converted st,
                              message = None,
                              summary = Some
                                \<lparr>totalOriginalFiles = length originals,
                                 totalConvertedFiles = length (converted st),
                                 successfullyConverted =
                                   length (filter (\<lambda>f. \<not> isFallback f) (converted st)),
                                 fallbackFiles = length (filter isFallback (converted st)),
                                 sum_batchResults = batchResults st,
                                 sum_target = tgt\<rparr>,
                              warnings =
                                (if fallbackBatches > 0
                                 then Some
                                   \<lparr>warn_message =
                                      showNat fallbackBatches @
                                      '' batches required fallback conversion'',
                                    warn_details =
                                      ''Some files were converted using fallback method and need manual review'',
                                    warn_fallbackFiles =
                                      map (\<lambda>f. getProp f ''originalPath'')
                                        (filter isFallback (converted st))\<rparr>
                                 else None)\<rparr>))))"

section \<open>The earlier revision of the route\<close>

definition isCodeFile :: "string \<Rightarrow> bool" where
  "isCodeFile p =
     list_ex (\<lambda>e. endsWith (toLowerCase p) (CHR ''.'' # e))
       [''ts'', ''tsx'', ''js'', ''jsx'', ''py'', ''cs'', ''java'', ''go'', ''rs'', ''php'', ''rb'',
        ''kt'', ''scala'', ''sql'', ''sh'', ''yml'', ''yaml'', ''json'', ''html'', ''css'', ''scss'',
        ''less'']"

definition fetchOne_v1 :: "world \<Rightarrow> tree_entry \<Rightarrow> file_base option" where
  "fetchOne_v1 w f =
     (case file_content w (entry_path f) of
        None \<Rightarrow> None
      | Some decoded \<Rightarrow> Some \<lparr>path = entry_path f, content = decoded\<rparr>)"

definition fetchFiles_v1 :: "world \<Rightarrow> string \<Rightarrow> string + file_base list" where
  "fetchFiles_v1 w branchName =
     (case branch_sha w of
        Inl err \<Rightarrow> Inl err
      | Inr sha \<Rightarrow>
          if sha = None \<or> sha = Some [] then Inl (''Could not find SHA for branch '' @ branchName)
          else (case tree_listing w of
                  Inl err \<Rightarrow> Inl err
                | Inr tree \<Rightarrow>
                    (let files =
                           take 50 (filter (\<lambda>n. entry_type n = ''blob'' \<and> isCodeFile (entry_path n))
                                      tree)
                     in Inr (fetchWindows 5 (fetchOne_v1 w) files))))"

record batch_error =
  be_batch :: nat
  be_error :: string
  be_fileCount :: nat

record loop_state_v1 =
  converted_v1 :: "json list"
  errors_v1 :: "batch_error list"

definition processBatch_v1 ::
  "world \<Rightarrow> target_spec \<Rightarrow> loop_state_v1 \<Rightarrow> nat \<Rightarrow> file_base list \<Rightarrow> loop_state_v1" where
  "processBatch_v1 w tgt st i b =
     (case convertBatch_v1 w (i + 1) b tgt of
        Inr batchResult \<Rightarrow>
          \<lparr>converted_v1 = converted_v1 st @ batchResult, errors_v1 = errors_v1 st\<rparr>
      | Inl conversionError \<Rightarrow>
          \<lparr>converted_v1 = converted_v1 st,
           errors_v1 = errors_v1 st @
             [\<lparr>be_batch = i + 1, be_error = errorMessage_v1 conversionError,
               be_fileCount = length b\<rparr>]\<rparr>)"

fun batchLoop_v1 ::
  "world \<Rightarrow> target_spec \<Rightarrow> nat \<Rightarrow> file_base list list \<Rightarrow> loop_state_v1 \<Rightarrow> loop_state_v1" where
  "batchLoop_v1 w tgt i [] st = st"
| "batchLoop_v1 w tgt i (b # bs) st =
     batchLoop_v1 w tgt (Suc i) bs (processBatch_v1 w tgt st i b)"

record stats =
  originalFiles :: nat
  convertedFiles :: nat
  stats_batches :: nat
  successfulBatches :: nat
  stats_target :: target_spec

record ok_body_v1 =
  files_v1 :: "json list"
  message_v1 :: "string option"
  stats_v1 :: "stats option"
  warnings_v1 :: "(string \<times> batch_error list) option"

datatype response_v1 =
    Ok200_v1 ok_body_v1
  | Error400_v1 string
  | Error500_v1 string "batch_error list"

definition sizeLimit_v1 :: nat where
  "sizeLimit_v1 = 40000"

definition convert_v1 :: "world \<Rightarrow> request \<Rightarrow> response_v1" where
  "convert_v1 w req =
     (if token req = [] \<or> owner req = [] \<or> repo req = [] \<or> branch req = []
      then Error400_v1 ''Missing required fields: token, owner, repo, branch''
      else (case target req of
          None \<Rightarrow>
            Error400_v1
              ''Missing or incomplete target specification (language, framework, database required)''
        | Some tgt \<Rightarrow>
            if language tgt = [] \<or> framework tgt = [] \<or> database tgt = []
            then Error400_v1
              ''Missing or incomplete target specification (language, framework, database required)''
            else (case fetchFiles_v1 w (branch req) of
                Inl err \<Rightarrow> Error500_v1 err []
              | Inr originals \<Rightarrow>
                  if length originals = 0
                  then Ok200_v1 \<lparr>files_v1 = [],
                                 message_v1 = Some ''No code files found in repository'',
                                 stats_v1 = None, warnings_v1 = None\<rparr>
                  else (let batches = planBatches_v1 sizeLimit_v1 originals;
                            st = batchLoop_v1 w tgt 0 batches
                                   \<lparr>converted_v1 = [], errors_v1 = []\<rparr>
                        in if length (converted_v1 st) = 0
                           then Error500_v1 ''Conversion failed for all batches'' (errors_v1 st)
                           else Ok200_v1
                                  \<lparr>files_v1 = converted_v1 st,
                                   message_v1 = None,
                                   stats_v1 = Some
                                     \<lparr>originalFiles = length originals,
                                      convertedFiles = length (converted_v1 st),
                                      stats_batches = length batches,
                                      successfulBatches = length batches - length (errors_v1 st),
                                      stats_target = tgt\<rparr>,
                                   warnings_v1 =
                                     (if length (errors_v1 st) > 0
                                      then Some (showNat (length (errors_v1 st)) @
                                                 '' batches failed to convert'', errors_v1 st)
                                      else None)\<rparr>))))"

text \<open>
  What one pass of the loop body adds to \<open>converted\<close> and to \<open>batchResults\<close>, for the
  statements about the loop.
\<close>

definition batchOutput :: "world \<Rightarrow> target_spec \<Rightarrow> nat \<Rightarrow> source_file list \<Rightarrow> json list" where
  "batchOutput w tgt i b =
     (case convertBatch w b tgt (i + 1) of
        Inr batchResult \<Rightarrow> batchResult
      | Inl conversionError \<Rightarrow> createFallbackFiles b tgt)"

definition batchOutcome :: "world \<Rightarrow> target_spec \<Rightarrow> nat \<Rightarrow> source_file list \<Rightarrow> batch_result" where
  "batchOutcome w tgt i b =
     (case convertBatch w b tgt (i + 1) of
        Inr batchResult \<Rightarrow>
          \<lparr>br_batch = i + 1, br_status = ''success'', br_error = None,
           br_fileCount = length batchResult\<rparr>
      | Inl conversionError \<Rightarrow>
          \<lparr>br_batch = i + 1, br_status = ''fallback'',
           br_error = Some (errorMessage conversionError),
           br_fileCount = length (createFallbackFiles b tgt)\<rparr>)"

text \<open>A request with all its fields, for the target \<open>tgt\<close>.\<close>

definition validRequest :: "request \<Rightarrow> target_spec \<Rightarrow> bool" where
  "validRequest req tgt =
     (token req \<noteq> [] \<and> owner req \<noteq> [] \<and> repo req \<noteq> [] \<and> branch req \<noteq> [] \<and>
      target req = Some tgt \<and> language tgt \<noteq> [] \<and> framework tgt \<noteq> [] \<and> database tgt \<noteq> [])"

section \<open>Notions of the specification\<close>

text \<open>The cumulative content size of a batch.\<close>

definition batchSize :: "'a file_base_scheme list \<Rightarrow> nat" where
  "batchSize b = sum_list (map (\<lambda>f. length (content f)) b)"

text \<open>
  A batch respects the limit: it is not empty, and its cumulative size is at most the limit
  unless it is a single file that alone exceeds the limit.
\<close>

definition withinLimit :: "nat \<Rightarrow> 'a file_base_scheme list \<Rightarrow> bool" where
  "withinLimit lim b =
     (b \<noteq> [] \<and> (batchSize b \<le> lim \<or> (length b = 1 \<and> lim < batchSize b)))"

text \<open>The invariant of the Planner's loop.\<close>

definition planInv :: "nat \<Rightarrow> ('a file_base_scheme) planner_state \<Rightarrow> bool" where
  "planInv lim st =
     ((\<forall>b \<in> set (batches st). withinLimit lim b) \<and>
      (currentBatch st = [] \<or> withinLimit lim (currentBatch st)) \<and>
      currentSize st = batchSize (currentBatch st))"

text \<open>
  Balanced braces, in the specification's words. \<open>matchClose d s\<close> reads \<open>s\<close> after an
  opening brace, \<open>d\<close> further braces being open, up to the brace that closes the first
  one; a balanced block is an opening brace with the text up to its closing brace.
\<close>

fun matchClose :: "nat \<Rightarrow> string \<Rightarrow> string option" where
  "matchClose d [] = None"
| "matchClose d (c # cs) =
     (if c = CHR ''}'' then
        (case d of 0 \<Rightarrow> Some [c] | Suc d' \<Rightarrow> map_option ((#) c) (matchClose d' cs))
      else if c = CHR ''{'' then map_option ((#) c) (matchClose (Suc d) cs)
      else map_option ((#) c) (matchClose d cs))"

definition balancedBlock :: "string \<Rightarrow> bool" where
  "balancedBlock s =
     (case s of [] \<Rightarrow> False | c # cs \<Rightarrow> c = CHR ''{'' \<and> matchClose 0 cs = Some cs)"

text \<open>The reply contains a balanced block as a substring.\<close>

definition containsBalanced :: "string \<Rightarrow> bool" where
  "containsBalanced r = list_ex balancedBlock (sublists r)"

text \<open>The first balanced block of the reply, by its starting position.\<close>

fun firstBalanced :: "string \<Rightarrow> string option" where
  "firstBalanced [] = None"
| "firstBalanced (c # cs) =
     (if c = CHR ''{'' then
        (case matchClose 0 cs of Some m \<Rightarrow> Some (c # m) | None \<Rightarrow> firstBalanced cs)
      else firstBalanced cs)"

text \<open>
  The canonical extension of a target language: the fixed table, and the placeholder
  extension for a language that is not in it.
\<close>

definition extensionTable :: "(string \<times> string) list" where
  "extensionTable =
     [(''python'', ''.py''), (''javascript'', ''.js''), (''node.js'', ''.js''),
      (''typescript'', ''.ts''), (''java'', ''.java''), (''c#'', ''.cs''), (''csharp'', ''.cs''),
      (''go'', ''.go'')]"

definition canonicalExtension :: "string \<Rightarrow> string" where
  "canonicalExtension lang =
     (case map_of extensionTable (toLowerCase lang) of Some e \<Rightarrow> e | None \<Rightarrow> ''.txt'')"

text \<open>The file name of a path: its last component.\<close>

definition fileName :: "string \<Rightarrow> string" where
  "fileName p = last (split CHR ''/'' p)"

section \<open>Example inputs\<close>

definition pythonTarget :: target_spec where
  "pythonTarget = \<lparr>language = ''python'', framework = ''flask'', database = ''postgresql''\<rparr>"

definition manifestFile :: source_file where
  "manifestFile = \<lparr>path = ''package.json'', content = ''{}'', size = 2, priority = 1\<rparr>"

definition appFile :: source_file where
  "appFile = \<lparr>path = ''src/app.ts'', content = ''export {}'', size = 9, priority = 2\<rparr>"

definition readmeFile :: source_file where
  "readmeFile = \<lparr>path = ''README.md'', content = ''# StaxChange'', size = 12, priority = 3\<rparr>"

definition bigFile :: "string \<Rightarrow> source_file" where
  "bigFile p =
     \<lparr>path = p, content = replicate 30000 CHR ''x'', size = 30000, priority = 3\<rparr>"

definition dockerFile :: source_file where
  "dockerFile = \<lparr>path = ''Dockerfile'', content = ''FROM node:18'', size = 12, priority = 3\<rparr>"

text \<open>
  A repository with one source file, and a service that answers in prose. The parser of
  the examples accepts one text, the object below, as \<open>JSON.parse\<close> does, and rejects the
  other texts the examples give it, none of which is JSON.
\<close>

definition ghostReply :: string where
  "ghostReply =
     ''{\"files\":[{\"path\":\"a.py\",\"content\":\"print(1)\",\"originalPath\":\"ghost.ts\"}]}''"

definition ghostFile :: json where
  "ghostFile =
     JObj [(''path'', JStr ''a.py''), (''content'', JStr ''print(1)''),
           (''originalPath'', JStr ''ghost.ts'')]"

definition exampleParse :: "string \<Rightarrow> string + json" where
  "exampleParse s =
     (if s = ghostReply then Inr (JObj [(''files'', JArr [ghostFile])])
      else Inl ''Unexpected token'')"

fun codeUnitCompare :: "string \<Rightarrow> string \<Rightarrow> int" where
  "codeUnitCompare [] [] = 0"
| "codeUnitCompare [] (b # bs) = - 1"
| "codeUnitCompare (a # as) [] = 1"
| "codeUnitCompare (a # as) (b # bs) =
     (if a = b then codeUnitCompare as bs
      else if (of_char a :: nat) < of_char b then - 1 else 1)"

definition proseReply :: string where
  "proseReply = ''Sorry, I cannot convert these files.''"

definition proseWorld :: world where
  "proseWorld =
     \<lparr>branch_sha = Inr (Some ''4b825dc''),
      tree_listing = Inr [\<lparr>entry_path = ''src'', entry_type = ''tree''\<rparr>,
                          \<lparr>entry_path = ''src/app.ts'', entry_type = ''blob''\<rparr>],
      file_content = (\<lambda>p. if p = ''src/app.ts'' then Some ''export {}'' else None),
      localeCompare = codeUnitCompare,
      openrouter_key = True,
      llm = (\<lambda>i. Reply proseReply),
      json_parse = exampleParse\<rparr>"

text \<open>The same repository, the service answering with the object above.\<close>

definition ghostWorld :: world where
  "ghostWorld = proseWorld\<lparr>llm := (\<lambda>i. Reply ghostReply)\<rparr>"

text \<open>The same repository, every request for a file's content failing.\<close>

definition unreachableWorld :: world where
  "unreachableWorld = proseWorld\<lparr>file_content := (\<lambda>p. None)\<rparr>"

text \<open>A reply with the object above followed by prose that has braces.\<close>

definition chattyReply :: string where
  "chattyReply = ghostReply @ '' Tell me if {more} is needed.''"

definition exampleRequest :: request where
  "exampleRequest =
     \<lparr>token = ''gho_token'', owner = ''octo'', repo = ''demo'', branch = ''main'',
      target = Some pythonTarget\<rparr>"

section \<open>Batch Planner: every batch respects the limit, no file is lost\<close>

lemma planStep_close:
  "lim < currentSize st + length (content f) \<Longrightarrow> currentBatch st \<noteq> [] \<Longrightarrow>
   planStep lim st f =
     \<lparr>batches = batches st @ [currentBatch st], currentBatch = [f],
      currentSize = length (content f)\<rparr>"
  by (simp add: planStep_def Let_def)

lemma planStep_extend:
  "\<not> (lim < currentSize st + length (content f) \<and> currentBatch st \<noteq> []) \<Longrightarrow>
   planStep lim st f =
     \<lparr>batches = batches st, currentBatch = currentBatch st @ [f],
      currentSize = currentSize st + length (content f)\<rparr>"
  by (simp add: planStep_def Let_def)

lemma batchSize_single: "batchSize [f] = length (content f)"
  by (simp add: batchSize_def)

lemma batchSize_snoc: "batchSize (b @ [f]) = batchSize b + length (content f)"
  by (simp add: batchSize_def)

lemma withinLimit_single: "withinLimit lim [f]"
  by (simp add: withinLimit_def batchSize_single) arith

lemma planInv_init: "planInv lim planInit"
  by (simp add: planInv_def planInit_def batchSize_def)

lemma planInv_step:
  assumes "planInv lim st"
  shows "planInv lim (planStep lim st f)"
proof (cases "lim < currentSize st + length (content f) \<and> currentBatch st \<noteq> []")
  case True
  then have eq: "planStep lim st f =
     \<lparr>batches = batches st @ [currentBatch st], currentBatch = [f],
      currentSize = length (content f)\<rparr>"
    by (simp add: planStep_close)
  from assms True have "withinLimit lim (currentBatch st)"
    by (simp add: planInv_def)
  with assms show ?thesis
    by (simp add: eq planInv_def withinLimit_single batchSize_single)
next
  case False
  then have eq: "planStep lim st f =
     \<lparr>batches = batches st, currentBatch = currentBatch st @ [f],
      currentSize = currentSize st + length (content f)\<rparr>"
    by (rule planStep_extend)
  have "withinLimit lim (currentBatch st @ [f])"
  proof (cases "currentBatch st = []")
    case True
    then show ?thesis by (simp add: withinLimit_single)
  next
    case nonempty: False
    with False have "currentSize st + length (content f) \<le> lim" by simp
    moreover from assms have "currentSize st = batchSize (currentBatch st)"
      by (simp add: planInv_def)
    ultimately show ?thesis
      by (simp add: withinLimit_def batchSize_snoc)
  qed
  with assms show ?thesis
    by (simp add: eq planInv_def batchSize_snoc)
qed

lemma planInv_foldl: "planInv lim st \<Longrightarrow> planInv lim (foldl (planStep lim) st fs)"
  by (induction fs arbitrary: st) (simp_all add: planInv_step)

lemma planStep_concat:
  "concat (batches (planStep lim st f)) @ currentBatch (planStep lim st f) =
   concat (batches st) @ currentBatch st @ [f]"
  by (cases "lim < currentSize st + length (content f) \<and> currentBatch st \<noteq> []")
     (simp_all add: planStep_close planStep_extend)

lemma planFoldl_concat:
  "concat (batches (foldl (planStep lim) st fs)) @ currentBatch (foldl (planStep lim) st fs) =
   concat (batches st) @ currentBatch st @ fs"
  by (induction fs arbitrary: st) (simp_all add: planStep_concat)

lemma planFinish_concat: "concat (planFinish st) = concat (batches st) @ currentBatch st"
  by (simp add: planFinish_def)

lemma planFinish_within:
  "planInv lim st \<Longrightarrow> b \<in> set (planFinish st) \<Longrightarrow> withinLimit lim b"
  by (auto simp: planFinish_def planInv_def split: if_splits)

lemma planBatches_v1_concat: "concat (planBatches_v1 lim fs) = fs"
  by (simp add: planBatches_v1_def planFinish_concat planFoldl_concat planInit_def)

lemma planBatches_v1_within: "b \<in> set (planBatches_v1 lim fs) \<Longrightarrow> withinLimit lim b"
  unfolding planBatches_v1_def
  by (rule planFinish_within [OF planInv_foldl [OF planInv_init]])

lemma planBatches_groups:
  "planBatches lim originals = planBatches_v1 lim (concat (fileGroups originals))"
  by (simp add: planBatches_def planBatches_v1_def fileGroups_def)

lemma mset_fileGroups:
  "\<forall>f \<in> set originals. priority f \<in> {1, 2, 3} \<Longrightarrow>
   mset (concat (fileGroups originals)) = mset originals"
  by (induction originals) (auto simp: fileGroups_def)

lemma set_fileGroups: "set (concat (fileGroups originals)) \<subseteq> set originals"
  by (auto simp: fileGroups_def)

lemma planBatches_nonempty: "originals \<noteq> [] \<Longrightarrow> planBatches_v1 lim originals \<noteq> []"
  using planBatches_v1_concat [of lim originals] by auto

text \<open>
  Claim C2. Every batch the Planner produces is non-empty and has cumulative content size
  at most the limit, unless it is a single file that alone exceeds the limit; and the
  batches together hold exactly the input files, each once. For the later revision, which
  groups the files by priority 1, 2, 3 first, this is for files whose priority is one of
  the three, as the Fetcher's files are; the earlier revision keeps the input order.
\<close>

theorem planner_batches_within_limit_and_exact:
  fixes originals :: "source_file list" and fs :: "'a file_base_scheme list"
  assumes "\<forall>f \<in> set originals. priority f \<in> {1, 2, 3}"
  shows "(\<forall>b \<in> set (planBatches lim originals). withinLimit lim b) \<and>
         mset (concat (planBatches lim originals)) = mset originals \<and>
         (\<forall>b \<in> set (planBatches_v1 lim fs). withinLimit lim b) \<and>
         concat (planBatches_v1 lim fs) = fs"
  using assms
  by (simp add: planBatches_groups planBatches_v1_concat planBatches_v1_within mset_fileGroups)

lemma planner_example:
  "planBatches 10 [manifestFile, appFile, readmeFile] = [[manifestFile], [appFile], [readmeFile]]"
  by (simp add: planBatches_def fileGroups_def planStep_def planInit_def planFinish_def
      manifestFile_def appFile_def readmeFile_def)

theorem planner_batches_within_limit_and_exact_witness:
  "(priority manifestFile \<in> {1, 2, 3} \<and> priority appFile \<in> {1, 2, 3} \<and>
    priority readmeFile \<in> {1, 2, 3}) \<and>
   planBatches 10 [manifestFile, appFile, readmeFile] = [[manifestFile], [appFile], [readmeFile]] \<and>
   (withinLimit 10 [manifestFile] \<and> withinLimit 10 [appFile] \<and> withinLimit 10 [readmeFile]) \<and>
   batchSize [readmeFile] = 12 \<and>
   mset (concat (planBatches 10 [manifestFile, appFile, readmeFile])) =
     mset [manifestFile, appFile, readmeFile] \<and>
   concat (planBatches_v1 10 [manifestFile, appFile, readmeFile]) =
     [manifestFile, appFile, readmeFile]"
proof -
  have p: "priority manifestFile \<in> {1, 2, 3} \<and> priority appFile \<in> {1, 2, 3} \<and>
    priority readmeFile \<in> {1, 2, 3}"
    by (simp add: manifestFile_def appFile_def readmeFile_def)
  then have h: "\<forall>f \<in> set [manifestFile, appFile, readmeFile]. priority f \<in> {1, 2, 3}"
    by simp
  note t = planner_batches_within_limit_and_exact
    [OF h, of 10 "[manifestFile, appFile, readmeFile]"]
  have w: "withinLimit 10 [manifestFile] \<and> withinLimit 10 [appFile] \<and>
    withinLimit 10 [readmeFile]"
    using t by (simp add: planner_example)
  have s: "batchSize [readmeFile] = 12"
    by (simp add: batchSize_def readmeFile_def)
  from p planner_example w s t show ?thesis by blast
qed

text \<open>
  Claim C9. Three files of 30000 characters each and a limit of 40000 give the three
  singleton batches, in the order of the files. The later revision groups by priority
  first, so there the order of the files is the Fetcher's, by ascending priority.
\<close>

theorem planner_three_files_of_30000:
  fixes f1 f2 f3 :: source_file
  assumes "length (content f1) = 30000" and "length (content f2) = 30000"
    and "length (content f3) = 30000"
  shows "planBatches_v1 40000 [f1, f2, f3] = [[f1], [f2], [f3]] \<and>
         (1 \<le> priority f1 \<and> priority f1 \<le> priority f2 \<and> priority f2 \<le> priority f3 \<and>
          priority f3 \<le> 3 \<longrightarrow>
            planBatches 40000 [f1, f2, f3] = [[f1], [f2], [f3]])"
proof -
  have v1: "planBatches_v1 40000 [f1, f2, f3] = [[f1], [f2], [f3]]"
    using assms by (simp add: planBatches_v1_def planStep_def planInit_def planFinish_def)
  have "concat (fileGroups [f1, f2, f3]) = [f1, f2, f3]"
    if "1 \<le> priority f1" "priority f1 \<le> priority f2" "priority f2 \<le> priority f3"
      "priority f3 \<le> 3"
    using that by (auto simp: fileGroups_def)
  with v1 show ?thesis by (simp add: planBatches_groups)
qed

theorem planner_three_files_of_30000_witness:
  "(length (content (bigFile ''a.ts'')) = 30000 \<and> length (content (bigFile ''b.ts'')) = 30000 \<and>
    length (content (bigFile ''c.ts'')) = 30000) \<and>
   planBatches_v1 40000 [bigFile ''a.ts'', bigFile ''b.ts'', bigFile ''c.ts''] =
     [[bigFile ''a.ts''], [bigFile ''b.ts''], [bigFile ''c.ts'']] \<and>
   (1 \<le> priority (bigFile ''a.ts'') \<and> priority (bigFile ''a.ts'') \<le> priority (bigFile ''b.ts'') \<and>
    priority (bigFile ''b.ts'') \<le> priority (bigFile ''c.ts'') \<and> priority (bigFile ''c.ts'') \<le> 3) \<and>
   planBatches 40000 [bigFile ''a.ts'', bigFile ''b.ts'', bigFile ''c.ts''] =
     [[bigFile ''a.ts''], [bigFile ''b.ts''], [bigFile ''c.ts'']]"
proof -
  have h: "length (content (bigFile p)) = 30000" for p
    by (simp add: bigFile_def)
  have p: "1 \<le> priority (bigFile ''a.ts'') \<and> priority (bigFile ''a.ts'') \<le> priority (bigFile ''b.ts'') \<and>
    priority (bigFile ''b.ts'') \<le> priority (bigFile ''c.ts'') \<and> priority (bigFile ''c.ts'') \<le> 3"
    by (simp add: bigFile_def)
  from planner_three_files_of_30000 [OF h h h, of "''a.ts''" "''b.ts''" "''c.ts''"] p
    h [of "''a.ts''"] h [of "''b.ts''"] h [of "''c.ts''"]
  show ?thesis by blast
qed

section \<open>Fallback Generator\<close>

lemma split_not_Nil: "split sep s \<noteq> []"
  by (induction s) (auto split: list.splits)

lemma split_no_sep: "sep \<notin> set s \<Longrightarrow> split sep s = [s]"
  by (induction s) auto

lemma split_snoc_part: "sep \<notin> set e \<Longrightarrow> split sep (s @ sep # e) = split sep s @ [e]"
proof (induction s)
  case Nil
  then show ?case by (simp add: split_no_sep)
next
  case (Cons c s)
  obtain p ps where "split sep s = p # ps"
    using split_not_Nil [of sep s] by (cases "split sep s") auto
  with Cons show ?case by simp
qed

lemma join_split: "join sep (split sep s) = s"
proof (induction s)
  case Nil
  then show ?case by simp
next
  case (Cons c s)
  obtain p ps where ps: "split sep s = p # ps"
    using split_not_Nil [of sep s] by (cases "split sep s") auto
  with Cons show ?case by (cases ps) auto
qed

lemma targetExt_cases:
  "targetExt l \<in> {''.py'', ''.js'', ''.ts'', ''.java'', ''.cs'', ''.go'', ''.txt''}"
  by (simp add: targetExt_def Let_def)

lemma targetExt_shape: "\<exists>e. targetExt l = CHR ''.'' # e \<and> CHR ''.'' \<notin> set e"
  using targetExt_cases [of l] by auto

lemma newPath_replaces_extension:
  "path file = stem @ CHR ''.'' # e \<Longrightarrow> CHR ''.'' \<notin> set e \<Longrightarrow>
   newPath file tgt = stem @ targetExt (language tgt)"
  by (simp add: newPath_def split_snoc_part join_split)

lemma newPath_no_dot:
  "CHR ''.'' \<notin> set (path file) \<Longrightarrow> newPath file tgt = targetExt (language tgt)"
  by (simp add: newPath_def split_no_sep)

lemma last_split_newPath:
  "last (split CHR ''.'' (newPath file tgt)) = tl (targetExt (language tgt))"
proof -
  obtain e where e: "targetExt (language tgt) = CHR ''.'' # e" "CHR ''.'' \<notin> set e"
    using targetExt_shape by blast
  then show ?thesis by (simp add: newPath_def Let_def split_snoc_part)
qed

lemma endsWith_append: "endsWith (s @ t) t"
  by (simp add: endsWith_def startsWith_def)

lemma targetExt_canonical: "targetExt lang = canonicalExtension lang"
  by (simp add: targetExt_def canonicalExtension_def extensionTable_def Let_def)

lemma fallbackContent_length:
  "length (fallbackContent file tgt) =
     193 + length (path file) + 3 * length (language tgt) + length (framework tgt) +
     min 1000 (length (content file)) + (if 1000 < length (content file) then 16 else 0)"
  by (simp add: fallbackContent_def nl_def substring0_def)

lemma fallbackContent_depends_on_prefix:
  "path f = path g \<Longrightarrow> take 1000 (content f) = take 1000 (content g) \<Longrightarrow>
   (1000 < length (content f)) = (1000 < length (content g)) \<Longrightarrow>
   fallbackContent f tgt = fallbackContent g tgt"
  by (simp add: fallbackContent_def substring0_def)

lemma sublist_mid: "sublist xs (ps @ xs @ ss)"
  by (auto simp: sublist_def)

lemma fallbackContent_embeds_excerpt:
  "sublist
     (substring0 (content f) 1000 @
      (if 1000 < length (content f) then nl @ ''... (truncated)'' else []))
     (fallbackContent f tgt)"
proof -
  have "fallbackContent f tgt =
     (''// FALLBACK CONVERSION - NEEDS MANUAL REVIEW'' @ nl @
      ''// Original file: '' @ path f @ nl @
      ''// Target: '' @ language tgt @ '' with '' @ framework tgt @ nl @
      ''// TODO: Convert the following original content to '' @ language tgt @ nl @
      nl @ ''/*'' @ nl @ ''Original content:'' @ nl) @
     (substring0 (content f) 1000 @
      (if 1000 < length (content f) then nl @ ''... (truncated)'' else [])) @
     (nl @ ''*/'' @ nl @ nl @ ''// Add your converted '' @ language tgt @ '' code here'')"
    by (simp add: fallbackContent_def)
  then show ?thesis
    by (simp only: sublist_mid)
qed

lemma createFallbackFile_props:
  "getProp (createFallbackFile tgt f) ''path'' = Some (JStr (newPath f tgt))"
  "getProp (createFallbackFile tgt f) ''content'' = Some (JStr (fallbackContent f tgt))"
  "getProp (createFallbackFile tgt f) ''originalPath'' = Some (JStr (path f))"
  "getProp (createFallbackFile tgt f) ''isFallback'' = Some (JBool True)"
  by (simp_all add: createFallbackFile_def)

lemma newPath_app_python: "newPath appFile pythonTarget = ''src/app.py''"
  by (simp add: newPath_def appFile_def pythonTarget_def targetExt_def toLowerCase_def
      toLowerChar_def)

text \<open>
  Claim C6. The Fallback Generator returns one entry per file of the batch, in order; each
  has \<open>isFallback\<close> true and the file's path as \<open>originalPath\<close>; its path ends with the
  canonical extension of the target language (the table's, or \<open>.txt\<close> for a language not
  in the table), which is its part from the last dot on and stands in the place of the
  original extension. For the language python, \<open>src/app.ts\<close> gives \<open>src/app.py\<close>.
\<close>

theorem fallback_one_stub_per_file:
  "length (createFallbackFiles batch tgt) = length batch \<and>
   (\<forall>i < length batch.
      getProp (createFallbackFiles batch tgt ! i) ''isFallback'' = Some (JBool True) \<and>
      getProp (createFallbackFiles batch tgt ! i) ''originalPath'' =
        Some (JStr (path (batch ! i))) \<and>
      getProp (createFallbackFiles batch tgt ! i) ''path'' =
        Some (JStr (newPath (batch ! i) tgt)) \<and>
      endsWith (newPath (batch ! i) tgt) (canonicalExtension (language tgt)) \<and>
      CHR ''.'' # last (split CHR ''.'' (newPath (batch ! i) tgt)) =
        canonicalExtension (language tgt) \<and>
      (\<forall>stem e. path (batch ! i) = stem @ CHR ''.'' # e \<and> CHR ''.'' \<notin> set e \<longrightarrow>
         newPath (batch ! i) tgt = stem @ canonicalExtension (language tgt))) \<and>
   (toLowerCase (language tgt) = ''python'' \<and> path f = ''src/app.ts'' \<longrightarrow>
      newPath f tgt = ''src/app.py'')"
proof -
  have ext: "CHR ''.'' # last (split CHR ''.'' (newPath g tgt)) = canonicalExtension (language tgt)"
    for g
    using targetExt_shape [of "language tgt"]
    by (auto simp: last_split_newPath targetExt_canonical)
  have ends: "endsWith (newPath g tgt) (canonicalExtension (language tgt))" for g
    by (simp add: newPath_def endsWith_append targetExt_canonical)
  have repl: "newPath g tgt = stem @ canonicalExtension (language tgt)"
    if "path g = stem @ CHR ''.'' # e" "CHR ''.'' \<notin> set e" for g stem e
    using newPath_replaces_extension [OF that] by (simp add: targetExt_canonical)
  have py: "newPath f tgt = ''src/app.py''"
    if "toLowerCase (language tgt) = ''python''" "path f = ''src/app.ts''"
  proof -
    have "path f = ''src/app'' @ CHR ''.'' # ''ts''" using that by simp
    from repl [OF this] that show ?thesis
      by (simp add: canonicalExtension_def extensionTable_def)
  qed
  show ?thesis
    using ext ends repl py
    by (simp add: createFallbackFiles_def createFallbackFile_props)
qed

theorem fallback_one_stub_per_file_witness:
  "length (createFallbackFiles [appFile] pythonTarget) = length [appFile] \<and>
   (0::nat) < length [appFile] \<and>
   getProp (createFallbackFiles [appFile] pythonTarget ! 0) ''isFallback'' = Some (JBool True) \<and>
   getProp (createFallbackFiles [appFile] pythonTarget ! 0) ''originalPath'' =
     Some (JStr ''src/app.ts'') \<and>
   getProp (createFallbackFiles [appFile] pythonTarget ! 0) ''path'' = Some (JStr ''src/app.py'') \<and>
   canonicalExtension (language pythonTarget) = ''.py''"
proof -
  have p: "path ([appFile] ! 0) = ''src/app.ts''" "newPath ([appFile] ! 0) pythonTarget = ''src/app.py''"
    by (simp_all add: newPath_app_python) (simp add: appFile_def)
  have c: "canonicalExtension (language pythonTarget) = ''.py''"
    by (simp add: canonicalExtension_def extensionTable_def pythonTarget_def toLowerCase_def
        toLowerChar_def)
  have l: "(0::nat) < length [appFile]" by simp
  from fallback_one_stub_per_file [of "[appFile]" pythonTarget appFile] l
  have "length (createFallbackFiles [appFile] pythonTarget) = length [appFile] \<and>
    getProp (createFallbackFiles [appFile] pythonTarget ! 0) ''isFallback'' = Some (JBool True) \<and>
    getProp (createFallbackFiles [appFile] pythonTarget ! 0) ''originalPath'' =
      Some (JStr (path ([appFile] ! 0))) \<and>
    getProp (createFallbackFiles [appFile] pythonTarget ! 0) ''path'' =
      Some (JStr (newPath ([appFile] ! 0) pythonTarget))"
    by blast
  with p c l show ?thesis by simp
qed

text \<open>
  Claim C10. For a file whose path has no dot, the derived path is the bare canonical
  extension: nothing of the original name is kept. Dockerfile and Makefile are such paths,
  and the Selector admits them by their names, not by an extension.
\<close>

theorem fallback_path_without_dot:
  "CHR ''.'' \<notin> set (path file) \<Longrightarrow>
   newPath file tgt = canonicalExtension (language tgt) \<and>
   getProp (createFallbackFile tgt file) ''path'' = Some (JStr (canonicalExtension (language tgt))) \<and>
   (isRelevantFile ''Dockerfile'' \<and> importantFiles (fileName ''Dockerfile'') \<and>
    \<not> relevantExtensions ''Dockerfile'') \<and>
   (isRelevantFile ''Makefile'' \<and> importantFiles (fileName ''Makefile'') \<and>
    \<not> relevantExtensions ''Makefile'')"
proof -
  assume nodot: "CHR ''.'' \<notin> set (path file)"
  have sel: "isRelevantFile ''Dockerfile'' \<and> importantFiles (fileName ''Dockerfile'') \<and>
      \<not> relevantExtensions ''Dockerfile''"
    "isRelevantFile ''Makefile'' \<and> importantFiles (fileName ''Makefile'') \<and>
      \<not> relevantExtensions ''Makefile''"
    by (simp_all add: isRelevantFile_def skipPatterns_def relevantExtensions_def
        relevantExtensionList_def importantFiles_def importantFileList_def fileName_def
        endsWith_def startsWith_def toLowerCase_def toLowerChar_def)
  from nodot have "newPath file tgt = canonicalExtension (language tgt)"
    by (simp add: newPath_no_dot targetExt_canonical)
  with sel show ?thesis
    by (simp add: createFallbackFile_props)
qed

theorem fallback_path_without_dot_witness:
  "CHR ''.'' \<notin> set (path dockerFile) \<and>
   newPath dockerFile pythonTarget = ''.py'' \<and>
   getProp (createFallbackFile pythonTarget dockerFile) ''path'' = Some (JStr ''.py'')"
proof -
  have h: "CHR ''.'' \<notin> set (path dockerFile)"
    by (simp add: dockerFile_def)
  have c: "canonicalExtension (language pythonTarget) = ''.py''"
    by (simp add: canonicalExtension_def extensionTable_def pythonTarget_def toLowerCase_def
        toLowerChar_def)
  from fallback_path_without_dot [OF h, of pythonTarget] h c show ?thesis
    by simp
qed

lemma fallbackContent_same_beyond_excerpt:
  assumes "1000 < length (content f)"
  shows "\<exists>g. content g \<noteq> content f \<and> createFallbackFile tgt g = createFallbackFile tgt f"
proof -
  define c where "c = (if content f ! 1000 = CHR ''a'' then CHR ''b'' else CHR ''a'')"
  define g where "g = f\<lparr>content := take 1000 (content f) @ [c]\<rparr>"
  have c: "c \<noteq> content f ! 1000"
    by (simp add: c_def)
  from assms have len: "length (take 1000 (content f)) = 1000"
    by simp
  have p: "path g = path f"
    by (simp add: g_def)
  have t: "take 1000 (content g) = take 1000 (content f)"
    using len by (simp add: g_def)
  have l: "(1000 < length (content g)) = (1000 < length (content f))"
    using assms len by (simp add: g_def)
  have "content g ! 1000 = c"
    using len by (simp add: g_def nth_append)
  with c have ne: "content g \<noteq> content f"
    by auto
  from fallbackContent_depends_on_prefix [OF p t l]
  have "fallbackContent g tgt = fallbackContent f tgt" .
  with p have "createFallbackFile tgt g = createFallbackFile tgt f"
    by (simp add: createFallbackFile_def newPath_def)
  with ne show ?thesis by blast
qed

text \<open>
  Claim C7. The \<open>content\<close> of every entry the Fallback Generator returns is the stub text,
  which embeds an excerpt of the original content: its first 1000 characters, followed
  by the truncation mark when there are more. The excerpt has at most 1000 characters
  and the stub has a bounded length, whatever the size of the file. Nothing of the
  content beyond its first 1000 characters enters the entry: files that agree in path,
  in these characters and in having more of them get the same \<open>content\<close>, and for a
  content of more than 1000 characters, which the excerpt never equals, there is another
  content that gives the very same entry.
\<close>

theorem fallback_excerpt_bounded:
  "getProp (createFallbackFile tgt file) ''content'' = Some (JStr (fallbackContent file tgt)) \<and>
   (\<forall>i < length batch.
      getProp (createFallbackFiles batch tgt ! i) ''content'' =
        Some (JStr (fallbackContent (batch ! i) tgt))) \<and>
   substring0 (content file) 1000 = take 1000 (content file) \<and>
   length (substring0 (content file) 1000) \<le> 1000 \<and>
   sublist
     (substring0 (content file) 1000 @
      (if 1000 < length (content file) then nl @ ''... (truncated)'' else []))
     (fallbackContent file tgt) \<and>
   length (fallbackContent file tgt) \<le>
     1209 + length (path file) + 3 * length (language tgt) + length (framework tgt) \<and>
   (\<forall>g. path g = path file \<and> take 1000 (content g) = take 1000 (content file) \<and>
        (1000 < length (content g)) = (1000 < length (content file)) \<longrightarrow>
        getProp (createFallbackFile tgt g) ''content'' =
          getProp (createFallbackFile tgt file) ''content'') \<and>
   (1000 < length (content file) \<longrightarrow>
      length (substring0 (content file) 1000) = 1000 \<and>
      substring0 (content file) 1000 \<noteq> content file \<and>
      (\<exists>g. content g \<noteq> content file \<and>
           createFallbackFile tgt g = createFallbackFile tgt file))"
proof -
  have f: "getProp (createFallbackFile tgt x) ''content'' = Some (JStr (fallbackContent x tgt))"
    for x
    by (rule createFallbackFile_props)
  have fs: "getProp (createFallbackFiles batch tgt ! i) ''content'' =
      Some (JStr (fallbackContent (batch ! i) tgt))" if "i < length batch" for i
    using that by (simp add: createFallbackFiles_def f)
  have s: "substring0 (content file) 1000 = take 1000 (content file)"
    by (simp add: substring0_def)
  have a: "length (substring0 (content file) 1000) \<le> 1000"
    by (simp add: substring0_def)
  note e = fallbackContent_embeds_excerpt [of "file" tgt]
  have b: "length (fallbackContent file tgt) \<le>
     1209 + length (path file) + 3 * length (language tgt) + length (framework tgt)"
    by (simp add: fallbackContent_length)
  have c: "getProp (createFallbackFile tgt g) ''content'' =
      getProp (createFallbackFile tgt file) ''content''"
    if "path g = path file" "take 1000 (content g) = take 1000 (content file)"
      "(1000 < length (content g)) = (1000 < length (content file))" for g
    using fallbackContent_depends_on_prefix [OF that, of tgt] by (simp only: f)
  have d: "length (substring0 (content file) 1000) = 1000 \<and>
      substring0 (content file) 1000 \<noteq> content file \<and>
      (\<exists>g. content g \<noteq> content file \<and>
           createFallbackFile tgt g = createFallbackFile tgt file)"
    if long: "1000 < length (content file)"
  proof -
    from long have l: "length (substring0 (content file) 1000) = 1000"
      by (simp add: substring0_def)
    with long have "length (substring0 (content file) 1000) \<noteq> length (content file)"
      by simp
    then have "substring0 (content file) 1000 \<noteq> content file"
      by auto
    with l fallbackContent_same_beyond_excerpt [OF long, of tgt] show ?thesis
      by blast
  qed
  from f [of "file"] fs s a e b c d show ?thesis by blast
qed

theorem fallback_excerpt_bounded_witness:
  "getProp (createFallbackFile pythonTarget (bigFile ''a.ts'')) ''content'' =
     Some (JStr (fallbackContent (bigFile ''a.ts'') pythonTarget)) \<and>
   1000 < length (content (bigFile ''a.ts'')) \<and>
   length (substring0 (content (bigFile ''a.ts'')) 1000) = 1000 \<and>
   substring0 (content (bigFile ''a.ts'')) 1000 \<noteq> content (bigFile ''a.ts'') \<and>
   length (fallbackContent (bigFile ''a.ts'') pythonTarget) \<le> 1236 \<and>
   (0::nat) < length [appFile] \<and>
   getProp (createFallbackFiles [appFile] pythonTarget ! 0) ''content'' =
     Some (JStr (fallbackContent ([appFile] ! 0) pythonTarget))"
proof -
  note t = fallback_excerpt_bounded [of pythonTarget "bigFile ''a.ts''" "[appFile]"]
  have h: "1000 < length (content (bigFile ''a.ts''))"
    by (simp add: bigFile_def)
  have z: "(0::nat) < length [appFile]"
    by simp
  have n: "1209 + length (path (bigFile ''a.ts'')) + 3 * length (language pythonTarget) +
      length (framework pythonTarget) = 1236"
    by (simp add: bigFile_def pythonTarget_def)
  from t have f: "getProp (createFallbackFile pythonTarget (bigFile ''a.ts'')) ''content'' =
      Some (JStr (fallbackContent (bigFile ''a.ts'') pythonTarget))"
    by (rule conjunct1)
  from t have "length (fallbackContent (bigFile ''a.ts'') pythonTarget) \<le>
      1209 + length (path (bigFile ''a.ts'')) + 3 * length (language pythonTarget) +
      length (framework pythonTarget)"
    by blast
  then have b: "length (fallbackContent (bigFile ''a.ts'') pythonTarget) \<le> 1236"
    by (simp only: n)
  from t h have d: "length (substring0 (content (bigFile ''a.ts'')) 1000) = 1000 \<and>
      substring0 (content (bigFile ''a.ts'')) 1000 \<noteq> content (bigFile ''a.ts'')"
    by blast
  from t z have fs: "getProp (createFallbackFiles [appFile] pythonTarget ! 0) ''content'' =
      Some (JStr (fallbackContent ([appFile] ! 0) pythonTarget))"
    by blast
  from f h d b z fs show ?thesis by blast
qed

text \<open>The stub of the example file, whose 9 characters are all of the excerpt.\<close>

lemma fallback_stub_of_app:
  "fallbackContent appFile pythonTarget =
     ''// FALLBACK CONVERSION - NEEDS MANUAL REVIEW'' @ nl @
     ''// Original file: src/app.ts'' @ nl @
     ''// Target: python with flask'' @ nl @
     ''// TODO: Convert the following original content to python'' @ nl @
     nl @
     ''/*'' @ nl @
     ''Original content:'' @ nl @
     ''export {}'' @ nl @
     ''*/'' @ nl @
     nl @
     ''// Add your converted python code here''"
  by (simp add: fallbackContent_def substring0_def appFile_def pythonTarget_def)

section \<open>File Selector: priorities\<close>

text \<open>
  Claim C8. \<open>getFilePriority\<close> tests the whole lower-cased path, which it names
  \<open>filename\<close>: a path whose file name has no entry-point marker gets priority 2 when a
  directory of the path has one. The Selector accepts the path \<open>src/main/java/Foo.java\<close>,
  its file name \<open>Foo.java\<close> is no manifest name and has none of the markers, and its
  priority is 2.
\<close>

theorem priority_two_from_directory_name:
  "isRelevantFile ''src/main/java/Foo.java'' \<and>
   fileName ''src/main/java/Foo.java'' = ''Foo.java'' \<and>
   getFilePriority (fileName ''src/main/java/Foo.java'') = 3 \<and>
   getFilePriority ''src/main/java/Foo.java'' = 2"
  by (simp add: isRelevantFile_def skipPatterns_def relevantExtensions_def
      relevantExtensionList_def fileName_def getFilePriority_def
      endsWith_def startsWith_def toLowerCase_def toLowerChar_def)

section \<open>Conversion Engine: the recovery pass\<close>

lemma jsonMatch_SomeD:
  assumes "jsonMatch r = Some m"
  shows "\<exists>pre suf. r = pre @ m @ suf \<and> CHR ''{'' \<notin> set pre \<and> CHR ''}'' \<notin> set suf \<and>
           m \<noteq> [] \<and> hd m = CHR ''{'' \<and> last m = CHR ''}''"
proof -
  define pre where "pre = takeWhile (\<lambda>c. c \<noteq> CHR ''{'') r"
  define fromOpen where "fromOpen = dropWhile (\<lambda>c. c \<noteq> CHR ''{'') r"
  define suf where "suf = rev (takeWhile (\<lambda>c. c \<noteq> CHR ''}'') (rev fromOpen))"
  from assms have m: "m = rev (dropWhile (\<lambda>c. c \<noteq> CHR ''}'') (rev fromOpen))" and ne: "m \<noteq> []"
    by (auto simp: jsonMatch_def Let_def fromOpen_def split: if_splits)
  have r: "r = pre @ fromOpen"
    by (simp add: pre_def fromOpen_def)
  have "rev fromOpen = rev suf @ rev m"
    by (simp add: suf_def m)
  then have fo: "fromOpen = m @ suf"
    by (metis rev_append rev_rev_ident)
  have pre: "CHR ''{'' \<notin> set pre"
    using set_takeWhileD [of "CHR ''{''" "\<lambda>c. c \<noteq> CHR ''{''" r] by (auto simp: pre_def)
  have suf: "CHR ''}'' \<notin> set suf"
    using set_takeWhileD [of "CHR ''}''" "\<lambda>c. c \<noteq> CHR ''}''" "rev fromOpen"]
    by (auto simp: suf_def)
  from ne fo have "fromOpen \<noteq> []" by auto
  then have "hd fromOpen = CHR ''{''"
    using hd_dropWhile [of "\<lambda>c. c \<noteq> CHR ''{''" r] by (auto simp: fromOpen_def)
  with ne fo have hd: "hd m = CHR ''{''" by auto
  from ne have "dropWhile (\<lambda>c. c \<noteq> CHR ''}'') (rev fromOpen) \<noteq> []"
    by (simp add: m)
  then have "hd (dropWhile (\<lambda>c. c \<noteq> CHR ''}'') (rev fromOpen)) = CHR ''}''"
    using hd_dropWhile [of "\<lambda>c. c \<noteq> CHR ''}''" "rev fromOpen"] by auto
  with ne have last: "last m = CHR ''}''"
    by (simp add: m last_rev)
  from r fo pre suf ne hd last show ?thesis by auto
qed

lemma dropWhile_absent: "a \<notin> set xs \<Longrightarrow> dropWhile (\<lambda>c. c \<noteq> a) (xs @ a # ys) = a # ys"
  by (induction xs) auto

lemma jsonMatch_SomeI:
  assumes "r = pre @ m @ suf" and "CHR ''{'' \<notin> set pre" and "CHR ''}'' \<notin> set suf"
    and "m \<noteq> []" and "hd m = CHR ''{''" and "last m = CHR ''}''"
  shows "jsonMatch r = Some m"
proof -
  from assms(4,5) obtain m' where m': "m = CHR ''{'' # m'"
    by (cases m) auto
  from assms(4,6) obtain m'' where m'': "m = m'' @ [CHR ''}'']"
    by (metis append_butlast_last_id)
  have "dropWhile (\<lambda>c. c \<noteq> CHR ''{'') r = m @ suf"
    using assms(1,2) dropWhile_absent [of "CHR ''{''" pre "m' @ suf"] by (simp add: m')
  moreover have "dropWhile (\<lambda>c. c \<noteq> CHR ''}'') (rev (m @ suf)) = rev m"
    using assms(3) dropWhile_absent [of "CHR ''}''" "rev suf" "rev m''"] by (simp add: m'')
  ultimately have "jsonMatch r = (if rev (rev m) = [] then None else Some (rev (rev m)))"
    by (simp only: jsonMatch_def Let_def)
  with assms(4) show ?thesis by simp
qed

lemma jsonMatch_None_iff:
  "jsonMatch r = None \<longleftrightarrow> CHR ''}'' \<notin> set (dropWhile (\<lambda>c. c \<noteq> CHR ''{'') r)"
proof -
  have "dropWhile P xs = [] \<longleftrightarrow> (\<forall>x \<in> set xs. P x)" for P and xs :: string
    by (simp add: dropWhile_eq_Nil_conv)
  from this [of "\<lambda>c. c \<noteq> CHR ''}''" "rev (dropWhile (\<lambda>c. c \<noteq> CHR ''{'') r)"]
  show ?thesis
    by (auto simp: jsonMatch_def Let_def)
qed

text \<open>A block without inner braces is balanced.\<close>

lemma matchClose_plain:
  "CHR ''{'' \<notin> set mid \<Longrightarrow> CHR ''}'' \<notin> set mid \<Longrightarrow>
   matchClose 0 (mid @ [CHR ''}'']) = Some (mid @ [CHR ''}''])"
  by (induction mid) auto

lemma sublist_in_context:
  assumes "sublist s m"
  shows "sublist s (pre @ m @ suf)"
proof -
  from assms obtain ps ss where "m = ps @ s @ ss"
    by (auto simp: sublist_def)
  then have "pre @ m @ suf = (pre @ ps) @ s @ (ss @ suf)"
    by simp
  then show ?thesis
    unfolding sublist_def by blast
qed

text \<open>Between an opening brace and a later closing brace there is a balanced block.\<close>

lemma balanced_between:
  "\<exists>s. sublist s (CHR ''{'' # mid @ [CHR ''}'']) \<and> balancedBlock s"
proof (induction "length mid" arbitrary: mid rule: less_induct)
  case less
  show ?case
  proof (cases "CHR ''}'' \<in> set mid")
    case True
    then obtain a b where ab: "mid = a @ CHR ''}'' # b"
      by (auto dest: split_list)
    then have "length a < length mid" by simp
    from less [OF this] obtain s where s: "sublist s (CHR ''{'' # a @ [CHR ''}''])" "balancedBlock s"
      by blast
    from sublist_in_context [OF s(1), of "[]" "b @ [CHR ''}'']"]
    have "sublist s (CHR ''{'' # mid @ [CHR ''}''])"
      by (simp add: ab)
    with s(2) show ?thesis by blast
  next
    case noclose: False
    show ?thesis
    proof (cases "CHR ''{'' \<in> set mid")
      case True
      then obtain a b where ab: "mid = a @ CHR ''{'' # b"
        by (auto dest: split_list)
      then have "length b < length mid" by simp
      from less [OF this] obtain s where s: "sublist s (CHR ''{'' # b @ [CHR ''}''])" "balancedBlock s"
        by blast
      from sublist_in_context [OF s(1), of "CHR ''{'' # a" "[]"]
      have "sublist s (CHR ''{'' # mid @ [CHR ''}''])"
        by (simp add: ab)
      with s(2) show ?thesis by blast
    next
      case False
      with noclose have "balancedBlock (CHR ''{'' # mid @ [CHR ''}''])"
        by (simp add: balancedBlock_def matchClose_plain)
      then show ?thesis by blast
    qed
  qed
qed

lemma containsBalanced_iff: "containsBalanced r \<longleftrightarrow> (\<exists>s. sublist s r \<and> balancedBlock s)"
  by (auto simp: containsBalanced_def list_ex_iff)

lemma jsonMatch_containsBalanced:
  assumes "jsonMatch r = Some m"
  shows "containsBalanced r"
proof -
  from jsonMatch_SomeD [OF assms] obtain pre suf where
    r: "r = pre @ m @ suf" and ne: "m \<noteq> []" and hd: "hd m = CHR ''{''" and last: "last m = CHR ''}''"
    by blast
  from ne hd obtain m' where m': "m = CHR ''{'' # m'" by (cases m) auto
  with last have "m' \<noteq> []" by auto
  with m' last obtain mid where mid: "m = CHR ''{'' # mid @ [CHR ''}'']"
    by (metis append_butlast_last_id last_ConsR)
  from balanced_between [of mid] obtain s where s: "sublist s m" "balancedBlock s"
    by (auto simp: mid)
  from sublist_in_context [OF s(1), of pre suf] have "sublist s r"
    by (simp add: r)
  with s(2) show ?thesis by (auto simp: containsBalanced_iff)
qed

lemma no_balanced_no_match: "\<not> containsBalanced r \<Longrightarrow> jsonMatch r = None"
  using jsonMatch_containsBalanced [of r] by (cases "jsonMatch r") auto

lemma no_open_no_balanced: "CHR ''{'' \<notin> set r \<Longrightarrow> \<not> containsBalanced r"
proof
  assume no: "CHR ''{'' \<notin> set r" and "containsBalanced r"
  then obtain s where s: "sublist s r" "balancedBlock s"
    by (auto simp: containsBalanced_iff)
  from s(2) have "CHR ''{'' \<in> set s"
    by (cases s) (auto simp: balancedBlock_def)
  with s(1) no show False
    by (auto simp: sublist_def)
qed

text \<open>
  Claim C5, as the code has it. A reply that parses is taken as it is. Otherwise the
  recovery pass takes the text from the first opening brace of the reply to its last
  closing brace, when a closing brace follows the first opening one, and parses that; a
  failure of this second parse, or a reply with no such text, is a Malformed Response
  failure, and the parse step fails in no other way.
\<close>

theorem recovery_takes_first_open_to_last_close:
  "(\<forall>v. json_parse w r = Inr v \<longrightarrow> parseResponse w r = Inr v) \<and>
   (\<forall>e. json_parse w r = Inl e \<longrightarrow>
      (\<forall>m. jsonMatch r = Some m \<longrightarrow>
         parseResponse w r =
           (case json_parse w m of Inr v \<Rightarrow> Inr v | Inl e2 \<Rightarrow> Inl (ParseFailed e2))) \<and>
      (jsonMatch r = None \<longrightarrow> parseResponse w r = Inl NoJson)) \<and>
   (\<forall>m. jsonMatch r = Some m \<longleftrightarrow>
      (\<exists>pre suf. r = pre @ m @ suf \<and> CHR ''{'' \<notin> set pre \<and> CHR ''}'' \<notin> set suf \<and>
         m \<noteq> [] \<and> hd m = CHR ''{'' \<and> last m = CHR ''}'')) \<and>
   (jsonMatch r = None \<longleftrightarrow> CHR ''}'' \<notin> set (dropWhile (\<lambda>c. c \<noteq> CHR ''{'') r)) \<and>
   (\<forall>err. parseResponse w r = Inl err \<longrightarrow> isMalformedResponse err)"
proof -
  have a: "parseResponse w r = Inr v" if "json_parse w r = Inr v" for v
    using that by (simp add: parseResponse_def)
  have b: "parseResponse w r =
      (case json_parse w m of Inr v \<Rightarrow> Inr v | Inl e2 \<Rightarrow> Inl (ParseFailed e2))"
    if "json_parse w r = Inl e" "jsonMatch r = Some m" for e m
    using that by (simp add: parseResponse_def)
  have c: "parseResponse w r = Inl NoJson" if "json_parse w r = Inl e" "jsonMatch r = None" for e
    using that by (simp add: parseResponse_def)
  have d: "jsonMatch r = Some m \<longleftrightarrow>
      (\<exists>pre suf. r = pre @ m @ suf \<and> CHR ''{'' \<notin> set pre \<and> CHR ''}'' \<notin> set suf \<and>
         m \<noteq> [] \<and> hd m = CHR ''{'' \<and> last m = CHR ''}'')" for m
    using jsonMatch_SomeD [of r m] jsonMatch_SomeI [of r _ m] by blast
  have e: "isMalformedResponse err" if "parseResponse w r = Inl err" for err
    using that by (auto simp: parseResponse_def split: sum.splits option.splits)
  from a b c d e jsonMatch_None_iff [of r] show ?thesis by blast
qed

theorem recovery_takes_first_open_to_last_close_witness:
  "json_parse proseWorld chattyReply = Inl ''Unexpected token'' \<and>
   jsonMatch chattyReply = Some (ghostReply @ '' Tell me if {more}'') \<and>
   json_parse proseWorld (ghostReply @ '' Tell me if {more}'') = Inl ''Unexpected token'' \<and>
   parseResponse proseWorld chattyReply = Inl (ParseFailed ''Unexpected token'') \<and>
   isMalformedResponse (ParseFailed ''Unexpected token'')"
proof -
  have p: "json_parse proseWorld chattyReply = Inl ''Unexpected token''"
    by code_simp
  have m: "jsonMatch chattyReply = Some (ghostReply @ '' Tell me if {more}'')"
    by code_simp
  have q: "json_parse proseWorld (ghostReply @ '' Tell me if {more}'') = Inl ''Unexpected token''"
    by code_simp
  from recovery_takes_first_open_to_last_close [of proseWorld chattyReply] p m
  have "parseResponse proseWorld chattyReply =
      (case json_parse proseWorld (ghostReply @ '' Tell me if {more}'') of
         Inr v \<Rightarrow> Inr v | Inl e2 \<Rightarrow> Inl (ParseFailed e2))"
    by blast
  then have r: "parseResponse proseWorld chattyReply = Inl (ParseFailed ''Unexpected token'')"
    by (simp only: q sum.case)
  from recovery_takes_first_open_to_last_close [of proseWorld chattyReply] r
  have "isMalformedResponse (ParseFailed ''Unexpected token'')"
    by blast
  with p m q r show ?thesis by blast
qed

text \<open>
  Claim C5 as it is stated fails: on a reply that holds a JSON object followed by prose
  with braces, the text the recovery pass takes is not the first balanced block, and is
  not balanced at all.
\<close>

theorem recovery_is_not_first_balanced_block:
  "jsonMatch chattyReply = Some (ghostReply @ '' Tell me if {more}'') \<and>
   firstBalanced chattyReply = Some ghostReply \<and>
   balancedBlock ghostReply \<and>
   \<not> balancedBlock (ghostReply @ '' Tell me if {more}'') \<and>
   exampleParse ghostReply = Inr (JObj [(''files'', JArr [ghostFile])]) \<and>
   parseResponse proseWorld chattyReply = Inl (ParseFailed ''Unexpected token'')"
  by code_simp

section \<open>Conversion Orchestrator: the loop over the batches\<close>

lemma convertBatch_Inr_nonempty: "convertBatch w b tgt k = Inr fs \<Longrightarrow> fs \<noteq> []"
  by (auto simp: convertBatch_def Let_def split: if_splits llm_result.splits sum.splits)

lemma convertBatch_Inr_reply:
  "convertBatch w b tgt k = Inr fs \<Longrightarrow>
   \<exists>r parsed. llm w k = Reply r \<and> parseResponse w r = Inr parsed \<and>
     fs = filter validFile (arrayItems (getProp parsed ''files''))"
  by (auto simp: convertBatch_def Let_def split: if_splits llm_result.splits sum.splits)

lemma convertBatch_no_json:
  "openrouter_key w \<Longrightarrow> llm w k = Reply r \<Longrightarrow> json_parse w r = Inl e \<Longrightarrow>
   jsonMatch r = None \<Longrightarrow> convertBatch w b tgt k = Inl NoJson"
  by (simp add: convertBatch_def parseResponse_def)

lemma processBatch_eq:
  "processBatch w tgt st i b =
     \<lparr>converted = converted st @ batchOutput w tgt i b,
      failedFiles = failedFiles st @
        (case convertBatch w b tgt (i + 1) of Inr fs \<Rightarrow> [] | Inl err \<Rightarrow> b),
      batchResults = batchResults st @ [batchOutcome w tgt i b]\<rparr>"
  by (simp add: processBatch_def batchOutput_def batchOutcome_def Let_def split: sum.splits)

lemma batchLoop_converted:
  "converted (batchLoop w tgt i bs st) =
   converted st @ concat (map (\<lambda>(k, b). batchOutput w tgt k b) (enumerate i bs))"
  by (induction bs arbitrary: i st) (simp_all add: processBatch_eq)

lemma batchLoop_results:
  "batchResults (batchLoop w tgt i bs st) =
   batchResults st @ map (\<lambda>(k, b). batchOutcome w tgt k b) (enumerate i bs)"
  by (induction bs arbitrary: i st) (simp_all add: processBatch_eq)

lemma batchOutput_nonempty: "b \<noteq> [] \<Longrightarrow> batchOutput w tgt k b \<noteq> []"
  by (auto simp: batchOutput_def createFallbackFiles_def split: sum.splits
      dest: convertBatch_Inr_nonempty)

lemma batchOutput_in_converted:
  assumes "(k, b) \<in> set (enumerate 0 bs)"
  shows "sublist (batchOutput w tgt k b) (converted (batchLoop w tgt 0 bs loopInit))"
proof -
  from assms obtain xs ys where "enumerate 0 bs = xs @ (k, b) # ys"
    by (auto dest: split_list)
  then have "converted (batchLoop w tgt 0 bs loopInit) =
      concat (map (\<lambda>(k, b). batchOutput w tgt k b) xs) @ batchOutput w tgt k b @
      concat (map (\<lambda>(k, b). batchOutput w tgt k b) ys)"
    by (simp add: batchLoop_converted loopInit_def)
  then show ?thesis
    by (simp only: sublist_mid)
qed

lemma enumerate_middle:
  "enumerate 0 (pre @ b # post) =
   enumerate 0 pre @ (length pre, b) # enumerate (Suc (length pre)) post"
  by (simp add: enumerate_append_eq)

text \<open>
  Claim C4. A batch whose reply is not JSON and contains no balanced block: the Engine
  fails with the message that the reply does not contain JSON; the loop body adds the
  Fallback Generator's stubs to the result and records the outcome \<open>fallback\<close> with that
  message; and the loop over all the batches, which has no failing result, has this
  outcome at the batch's index and the stubs in its result.
\<close>

theorem malformed_reply_gives_fallback:
  assumes "openrouter_key w" and "llm w (i + 1) = Reply r" and "json_parse w r = Inl e"
    and "\<not> containsBalanced r"
  shows "convertBatch w b tgt (i + 1) = Inl NoJson \<and>
         processBatch w tgt st i b =
           \<lparr>converted = converted st @ createFallbackFiles b tgt,
            failedFiles = failedFiles st @ b,
            batchResults = batchResults st @
              [\<lparr>br_batch = i + 1, br_status = ''fallback'',
                br_error = Some ''AI response does not contain valid JSON'',
                br_fileCount = length b\<rparr>]\<rparr> \<and>
         (\<forall>pre post. length pre = i \<longrightarrow>
            length (batchResults (batchLoop w tgt 0 (pre @ b # post) loopInit)) =
              length (pre @ b # post) \<and>
            batchResults (batchLoop w tgt 0 (pre @ b # post) loopInit) ! i =
              \<lparr>br_batch = i + 1, br_status = ''fallback'',
               br_error = Some ''AI response does not contain valid JSON'',
               br_fileCount = length b\<rparr> \<and>
            sublist (createFallbackFiles b tgt)
              (converted (batchLoop w tgt 0 (pre @ b # post) loopInit)))"
proof -
  from assms(4) have nomatch: "jsonMatch r = None"
    by (rule no_balanced_no_match)
  from convertBatch_no_json [OF assms(1-3) nomatch]
  have cb: "convertBatch w b tgt (i + 1) = Inl NoJson" .
  then have out: "batchOutput w tgt i b = createFallbackFiles b tgt"
    and res: "batchOutcome w tgt i b =
      \<lparr>br_batch = i + 1, br_status = ''fallback'',
       br_error = Some ''AI response does not contain valid JSON'', br_fileCount = length b\<rparr>"
    by (simp_all add: batchOutput_def batchOutcome_def createFallbackFiles_def)
  have pb: "processBatch w tgt st i b =
      \<lparr>converted = converted st @ createFallbackFiles b tgt,
       failedFiles = failedFiles st @ b,
       batchResults = batchResults st @
         [\<lparr>br_batch = i + 1, br_status = ''fallback'',
           br_error = Some ''AI response does not contain valid JSON'',
           br_fileCount = length b\<rparr>]\<rparr>"
    by (simp only: processBatch_eq out res cb sum.case)
  have loop: "length (batchResults (batchLoop w tgt 0 (pre @ b # post) loopInit)) =
        length (pre @ b # post) \<and>
      batchResults (batchLoop w tgt 0 (pre @ b # post) loopInit) ! i =
        \<lparr>br_batch = i + 1, br_status = ''fallback'',
         br_error = Some ''AI response does not contain valid JSON'',
         br_fileCount = length b\<rparr> \<and>
      sublist (createFallbackFiles b tgt)
        (converted (batchLoop w tgt 0 (pre @ b # post) loopInit))"
    if len: "length pre = i" for pre post
  proof -
    have "(i, b) \<in> set (enumerate 0 (pre @ b # post))"
      by (simp add: enumerate_middle len)
    from batchOutput_in_converted [OF this, of w tgt]
    have s: "sublist (createFallbackFiles b tgt)
        (converted (batchLoop w tgt 0 (pre @ b # post) loopInit))"
      by (simp only: out)
    have "batchResults (batchLoop w tgt 0 (pre @ b # post) loopInit) ! i = batchOutcome w tgt i b"
      by (simp add: batchLoop_results loopInit_def enumerate_middle len nth_append
          del: enumerate_simps)
    with s show ?thesis
      by (simp add: batchLoop_results loopInit_def res)
  qed
  from cb pb loop show ?thesis by blast
qed

theorem malformed_reply_gives_fallback_witness:
  "openrouter_key proseWorld \<and> llm proseWorld (0 + 1) = Reply proseReply \<and>
   json_parse proseWorld proseReply = Inl ''Unexpected token'' \<and>
   \<not> containsBalanced proseReply \<and>
   convertBatch proseWorld [appFile] pythonTarget (0 + 1) = Inl NoJson \<and>
   processBatch proseWorld pythonTarget loopInit 0 [appFile] =
     \<lparr>converted = converted loopInit @ createFallbackFiles [appFile] pythonTarget,
      failedFiles = failedFiles loopInit @ [appFile],
      batchResults = batchResults loopInit @
        [\<lparr>br_batch = 0 + 1, br_status = ''fallback'',
          br_error = Some ''AI response does not contain valid JSON'',
          br_fileCount = length [appFile]\<rparr>]\<rparr>"
proof -
  have k: "openrouter_key proseWorld"
    by (simp add: proseWorld_def)
  have l: "llm proseWorld (0 + 1) = Reply proseReply"
    by (simp add: proseWorld_def)
  have p: "json_parse proseWorld proseReply = Inl ''Unexpected token''"
    by code_simp
  have n: "\<not> containsBalanced proseReply"
    by (rule no_open_no_balanced) (simp add: proseReply_def)
  from malformed_reply_gives_fallback [OF k l p n, of "[appFile]" pythonTarget loopInit] k l p n
  show ?thesis by blast
qed

text \<open>
  Claim C3, as the code has it. The result of a run is made of what each batch gave, in
  the order of the batches. What a failed batch gave are the Fallback Generator's
  entries, each with \<open>isFallback\<close> true and the path of a fetched file, one of its batch,
  as \<open>originalPath\<close>. What a converted batch gave are the valid entries of the parsed reply,
  kept as they are: the Engine neither checks nor sets their \<open>originalPath\<close>.
\<close>

theorem provenance_of_result_files:
  assumes "(k, b) \<in> set (enumerate 0 (planBatches lim originals))"
  shows "converted (batchLoop w tgt 0 (planBatches lim originals) loopInit) =
           concat (map (\<lambda>(k, b). batchOutput w tgt k b)
             (enumerate 0 (planBatches lim originals))) \<and>
         sublist (batchOutput w tgt k b)
           (converted (batchLoop w tgt 0 (planBatches lim originals) loopInit)) \<and>
         (case convertBatch w b tgt (k + 1) of
            Inl err \<Rightarrow>
              batchOutput w tgt k b = createFallbackFiles b tgt \<and>
              list_all
                (\<lambda>f. getProp f ''isFallback'' = Some (JBool True) \<and>
                     (\<exists>s \<in> set b. s \<in> set originals \<and>
                        getProp f ''originalPath'' = Some (JStr (path s))))
                (batchOutput w tgt k b)
          | Inr fs \<Rightarrow>
              batchOutput w tgt k b = fs \<and>
              (\<exists>r parsed. llm w (k + 1) = Reply r \<and> parseResponse w r = Inr parsed \<and>
                 fs = filter validFile (arrayItems (getProp parsed ''files''))))"
proof -
  have a: "converted (batchLoop w tgt 0 (planBatches lim originals) loopInit) =
      concat (map (\<lambda>(k, b). batchOutput w tgt k b) (enumerate 0 (planBatches lim originals)))"
    by (simp add: batchLoop_converted loopInit_def)
  note s = batchOutput_in_converted [OF assms, of w tgt]
  from assms have "b \<in> set (planBatches lim originals)"
    by (auto simp: in_set_enumerate_eq)
  then have "set b \<subseteq> set (concat (planBatches lim originals))"
    by auto
  also have "\<dots> \<subseteq> set originals"
    using set_fileGroups [of originals]
    by (simp only: planBatches_groups planBatches_v1_concat)
  finally have sub: "set b \<subseteq> set originals" .
  have c: "(case convertBatch w b tgt (k + 1) of
      Inl err \<Rightarrow>
        batchOutput w tgt k b = createFallbackFiles b tgt \<and>
        list_all
          (\<lambda>f. getProp f ''isFallback'' = Some (JBool True) \<and>
               (\<exists>s \<in> set b. s \<in> set originals \<and>
                  getProp f ''originalPath'' = Some (JStr (path s))))
          (batchOutput w tgt k b)
    | Inr fs \<Rightarrow>
        batchOutput w tgt k b = fs \<and>
        (\<exists>r parsed. llm w (k + 1) = Reply r \<and> parseResponse w r = Inr parsed \<and>
           fs = filter validFile (arrayItems (getProp parsed ''files''))))"
  proof (cases "convertBatch w b tgt (k + 1)")
    case (Inl err)
    then have "batchOutput w tgt k b = createFallbackFiles b tgt"
      by (simp add: batchOutput_def)
    with sub Inl show ?thesis
      by (auto simp: createFallbackFiles_def list_all_iff createFallbackFile_props)
  next
    case (Inr fs)
    then have "batchOutput w tgt k b = fs"
      by (simp add: batchOutput_def)
    with Inr convertBatch_Inr_reply [OF Inr] show ?thesis
      by simp
  qed
  from a s c show ?thesis by blast
qed

section \<open>The example repository\<close>

lemma app_selected:
  "isRelevantFile ''src/app.ts''" "isCodeFile ''src/app.ts''" "getFilePriority ''src/app.ts'' = 2"
  by (simp_all add: isRelevantFile_def skipPatterns_def relevantExtensions_def
      relevantExtensionList_def isCodeFile_def getFilePriority_def endsWith_def startsWith_def
      toLowerCase_def toLowerChar_def)

lemma fetchWindows_Nil: "fetchWindows n fetch [] = []"
  by (simp add: fetchWindows.simps [of n fetch "[]"])

lemma fetchWindows_single: "0 < n \<Longrightarrow> fetchWindows n fetch [x] = List.map_filter fetch [x]"
  by (simp add: fetchWindows.simps [of n fetch "[x]"] fetchWindows_Nil)

lemma fetch_prose: "fetchFiles proseWorld b = Inr [appFile]"
  by (simp add: fetchFiles_def proseWorld_def app_selected sortWith_def fetchWindows_single
      fetchOne_def map_filter_def appFile_def)

lemma fetch_ghost: "fetchFiles ghostWorld b = Inr [appFile]"
  by (simp add: fetchFiles_def ghostWorld_def proseWorld_def app_selected sortWith_def
      fetchWindows_single fetchOne_def map_filter_def appFile_def)

lemma fetch_unreachable: "fetchFiles unreachableWorld b = Inr []"
  by (simp add: fetchFiles_def unreachableWorld_def proseWorld_def app_selected sortWith_def
      fetchWindows_single fetchOne_def map_filter_def)

lemma fetch_v1_unreachable: "fetchFiles_v1 unreachableWorld b = Inr []"
  by (simp add: fetchFiles_v1_def unreachableWorld_def proseWorld_def app_selected
      fetchWindows_single fetchOne_v1_def map_filter_def)

lemma exampleRequest_valid: "validRequest exampleRequest pythonTarget"
  by (simp add: validRequest_def exampleRequest_def pythonTarget_def)

lemma planBatches_app: "planBatches sizeLimit [appFile] = [[appFile]]"
  by (simp add: planBatches_def fileGroups_def planStep_def planInit_def planFinish_def
      appFile_def)

lemma convertBatch_ghost: "convertBatch ghostWorld b tgt n = Inr [ghostFile]"
proof -
  have k: "openrouter_key ghostWorld" and l: "llm ghostWorld n = Reply ghostReply"
    by (simp_all add: ghostWorld_def proseWorld_def)
  have "json_parse ghostWorld ghostReply = Inr (JObj [(''files'', JArr [ghostFile])])"
    by (simp add: ghostWorld_def proseWorld_def exampleParse_def)
  then have pr: "parseResponse ghostWorld ghostReply = Inr (JObj [(''files'', JArr [ghostFile])])"
    by (simp add: parseResponse_def)
  have vf: "validFile ghostFile"
    by (simp add: validFile_def ghostFile_def)
  show ?thesis
    by (simp add: convertBatch_def k l pr vf)
qed

lemma convertBatch_prose: "convertBatch proseWorld b tgt n = Inl NoJson"
proof -
  have k: "openrouter_key proseWorld" and l: "llm proseWorld n = Reply proseReply"
    by (simp_all add: proseWorld_def)
  have p: "json_parse proseWorld proseReply = Inl ''Unexpected token''"
    by (simp add: proseWorld_def exampleParse_def proseReply_def ghostReply_def)
  have "CHR ''{'' \<notin> set proseReply"
    by (simp add: proseReply_def)
  then have m: "jsonMatch proseReply = None"
    by (intro no_balanced_no_match no_open_no_balanced)
  from convertBatch_no_json [OF k l p m] show ?thesis .
qed

lemma case_sum_InlD:
  "x = Inl a \<Longrightarrow> (case x of Inl a \<Rightarrow> P a | Inr b \<Rightarrow> Q b) \<Longrightarrow> P a"
  by simp

theorem provenance_of_result_files_witness:
  "(0, [appFile]) \<in> set (enumerate 0 (planBatches sizeLimit [appFile])) \<and>
   convertBatch proseWorld [appFile] pythonTarget (0 + 1) = Inl NoJson \<and>
   batchOutput proseWorld pythonTarget 0 [appFile] = createFallbackFiles [appFile] pythonTarget \<and>
   list_all
     (\<lambda>f. getProp f ''isFallback'' = Some (JBool True) \<and>
          (\<exists>s \<in> set [appFile]. s \<in> set [appFile] \<and>
             getProp f ''originalPath'' = Some (JStr (path s))))
     (batchOutput proseWorld pythonTarget 0 [appFile]) \<and>
   sublist (batchOutput proseWorld pythonTarget 0 [appFile])
     (converted (batchLoop proseWorld pythonTarget 0 (planBatches sizeLimit [appFile]) loopInit))"
proof -
  have h: "(0, [appFile]) \<in> set (enumerate 0 (planBatches sizeLimit [appFile]))"
    by (simp add: planBatches_app)
  have cb: "convertBatch proseWorld [appFile] pythonTarget (0 + 1) = Inl NoJson"
    by (rule convertBatch_prose)
  note t = provenance_of_result_files [OF h, of proseWorld pythonTarget]
  from t have "case convertBatch proseWorld [appFile] pythonTarget (0 + 1) of
      Inl err \<Rightarrow>
        batchOutput proseWorld pythonTarget 0 [appFile] =
          createFallbackFiles [appFile] pythonTarget \<and>
        list_all
          (\<lambda>f. getProp f ''isFallback'' = Some (JBool True) \<and>
               (\<exists>s \<in> set [appFile]. s \<in> set [appFile] \<and>
                  getProp f ''originalPath'' = Some (JStr (path s))))
          (batchOutput proseWorld pythonTarget 0 [appFile])
    | Inr fs \<Rightarrow>
        batchOutput proseWorld pythonTarget 0 [appFile] = fs \<and>
        (\<exists>r parsed. llm proseWorld (0 + 1) = Reply r \<and>
           parseResponse proseWorld r = Inr parsed \<and>
           fs = filter validFile (arrayItems (getProp parsed ''files'')))"
    by blast
  then have c: "batchOutput proseWorld pythonTarget 0 [appFile] =
      createFallbackFiles [appFile] pythonTarget \<and>
    list_all
      (\<lambda>f. getProp f ''isFallback'' = Some (JBool True) \<and>
           (\<exists>s \<in> set [appFile]. s \<in> set [appFile] \<and>
              getProp f ''originalPath'' = Some (JStr (path s))))
      (batchOutput proseWorld pythonTarget 0 [appFile])"
    by (rule case_sum_InlD [OF cb])
  from t have s: "sublist (batchOutput proseWorld pythonTarget 0 [appFile])
     (converted (batchLoop proseWorld pythonTarget 0 (planBatches sizeLimit [appFile]) loopInit))"
    by blast
  from h cb c s show ?thesis by blast
qed

text \<open>
  Claim C3 as it is stated fails for a file of the Engine: the one file fetched is
  \<open>src/app.ts\<close>, the reply names \<open>ghost.ts\<close> as the original path of its file, and the
  result of the run holds this entry as it came.
\<close>

theorem engine_file_with_foreign_originalPath:
  "fetchFiles ghostWorld (branch exampleRequest) = Inr [appFile] \<and>
   path appFile = ''src/app.ts'' \<and>
   convert ghostWorld exampleRequest =
     Ok200
       \<lparr>files = [ghostFile],
        message = None,
        summary = Some
          \<lparr>totalOriginalFiles = 1, totalConvertedFiles = 1, successfullyConverted = 1,
           fallbackFiles = 0,
           sum_batchResults =
             [\<lparr>br_batch = 1, br_status = ''success'', br_error = None, br_fileCount = 1\<rparr>],
           sum_target = pythonTarget\<rparr>,
        warnings = None\<rparr> \<and>
   getProp ghostFile ''originalPath'' = Some (JStr ''ghost.ts'') \<and>
   getProp ghostFile ''isFallback'' = None"
proof -
  have f: "fetchFiles ghostWorld (branch exampleRequest) = Inr [appFile]"
    by (rule fetch_ghost)
  have loop: "batchLoop ghostWorld pythonTarget 0 [[appFile]] loopInit =
      \<lparr>converted = [ghostFile], failedFiles = [],
       batchResults =
         [\<lparr>br_batch = 1, br_status = ''success'', br_error = None, br_fileCount = 1\<rparr>]\<rparr>"
    by (simp add: processBatch_def convertBatch_ghost loopInit_def)
  have nf: "\<not> isFallback ghostFile"
    by (simp add: isFallback_def truthyOpt_def ghostFile_def)
  from exampleRequest_valid
  have t: "token exampleRequest \<noteq> []" "owner exampleRequest \<noteq> []"
    "repo exampleRequest \<noteq> []" "branch exampleRequest \<noteq> []"
    "target exampleRequest = Some pythonTarget" "language pythonTarget \<noteq> []"
    "framework pythonTarget \<noteq> []" "database pythonTarget \<noteq> []"
    by (simp_all add: validRequest_def)
  have c: "convert ghostWorld exampleRequest =
     Ok200
       \<lparr>files = [ghostFile],
        message = None,
        summary = Some
          \<lparr>totalOriginalFiles = 1, totalConvertedFiles = 1, successfullyConverted = 1,
           fallbackFiles = 0,
           sum_batchResults =
             [\<lparr>br_batch = 1, br_status = ''success'', br_error = None, br_fileCount = 1\<rparr>],
           sum_target = pythonTarget\<rparr>,
        warnings = None\<rparr>"
    by (simp add: convert_def Let_def t f planBatches_app loop nf del: batchLoop.simps)
  have p: "path appFile = ''src/app.ts''"
    by (simp add: appFile_def)
  have g: "getProp ghostFile ''originalPath'' = Some (JStr ''ghost.ts'')"
    "getProp ghostFile ''isFallback'' = None"
    by (simp_all add: ghostFile_def)
  from f p c g show ?thesis by blast
qed

section \<open>The run as a whole\<close>

lemma getFilePriority_range: "getFilePriority p \<in> {1, 2, 3}"
  by (simp add: getFilePriority_def Let_def)

lemma fetchWindows_from_fetch:
  "y \<in> set (fetchWindows n fetch xs) \<Longrightarrow> \<exists>x \<in> set xs. fetch x = Some y"
proof (induction n fetch xs rule: fetchWindows.induct)
  case (1 batchSize fetch filesToProcess)
  show ?case
  proof (cases "filesToProcess = [] \<or> batchSize = 0")
    case True
    with "1.prems" show ?thesis
      by (simp add: fetchWindows.simps [of batchSize fetch filesToProcess])
  next
    case False
    with "1.prems" have "y \<in> set (List.map_filter fetch (take batchSize filesToProcess)) \<or>
        y \<in> set (fetchWindows batchSize fetch (drop batchSize filesToProcess))"
      by (simp add: fetchWindows.simps [of batchSize fetch filesToProcess])
    then show ?thesis
    proof
      assume "y \<in> set (List.map_filter fetch (take batchSize filesToProcess))"
      then show ?thesis
        by (auto simp: map_filter_def dest: in_set_takeD)
    next
      assume "y \<in> set (fetchWindows batchSize fetch (drop batchSize filesToProcess))"
      with "1.IH" [OF False] show ?thesis
        by (auto dest: in_set_dropD)
    qed
  qed
qed

lemma fetchFiles_priority:
  assumes "fetchFiles w br = Inr originals"
  shows "\<forall>f \<in> set originals. priority f \<in> {1, 2, 3}"
proof
  fix f assume "f \<in> set originals"
  with assms obtain xs where "f \<in> set (fetchWindows 10 (fetchOne w) xs)"
    by (auto simp: fetchFiles_def Let_def split: sum.splits if_splits)
  then obtain x where "fetchOne w x = Some f"
    by (auto dest: fetchWindows_from_fetch)
  then have "priority f = getFilePriority (entry_path x)"
    by (auto simp: fetchOne_def split: option.splits if_splits)
  then show "priority f \<in> {1, 2, 3}"
    by (simp only: getFilePriority_range)
qed

lemma batchLoop_nonempty:
  assumes "originals \<noteq> []" and "\<forall>f \<in> set originals. priority f \<in> {1, 2, 3}"
  shows "converted (batchLoop w tgt 0 (planBatches lim originals) loopInit) \<noteq> []"
proof -
  from assms have "mset (concat (planBatches lim originals)) \<noteq> {#}"
    by (simp add: planBatches_groups planBatches_v1_concat mset_fileGroups)
  then obtain b bs where bs: "planBatches lim originals = b # bs"
    by (cases "planBatches lim originals") auto
  then have "b \<in> set (planBatches_v1 lim (concat (fileGroups originals)))"
    by (simp add: planBatches_groups)
  then have "b \<noteq> []"
    by (auto dest: planBatches_v1_within simp: withinLimit_def)
  then have "batchOutput w tgt 0 b \<noteq> []"
    by (rule batchOutput_nonempty)
  then show ?thesis
    by (simp only: bs batchLoop_converted) (simp add: loopInit_def)
qed

lemma convert_fetched:
  assumes "validRequest req tgt" and "fetchFiles w (branch req) = Inr originals"
    and "originals \<noteq> []"
  shows "\<exists>body. convert w req = Ok200 body \<and>
           files body = converted (batchLoop w tgt 0 (planBatches sizeLimit originals) loopInit)"
  using assms
  by (simp add: convert_def validRequest_def Let_def)

lemma convert_empty:
  assumes "validRequest req tgt" and "fetchFiles w (branch req) = Inr []"
  shows "convert w req =
     Ok200 \<lparr>files = [], message = Some ''No relevant files found in repository'',
             summary = None, warnings = None\<rparr>"
  using assms
  by (simp add: convert_def validRequest_def)

lemma convert_fetch_failed:
  assumes "validRequest req tgt" and "fetchFiles w (branch req) = Inl err"
  shows "convert w req = Error500 err"
  using assms
  by (simp add: convert_def validRequest_def)

lemma convert_v1_valid:
  assumes "validRequest req tgt" and "fetchFiles_v1 w (branch req) = Inr originals"
    and "originals \<noteq> []"
  shows "(\<exists>body. convert_v1 w req = Ok200_v1 body \<and> files_v1 body \<noteq> []) \<or>
         (\<exists>details. convert_v1 w req = Error500_v1 ''Conversion failed for all batches'' details)"
  using assms
  by (simp add: convert_v1_def validRequest_def Let_def)

lemma convert_v1_empty:
  assumes "validRequest req tgt" and "fetchFiles_v1 w (branch req) = Inr []"
  shows "convert_v1 w req =
     Ok200_v1 \<lparr>files_v1 = [], message_v1 = Some ''No code files found in repository'',
                stats_v1 = None, warnings_v1 = None\<rparr>"
  using assms
  by (simp add: convert_v1_def validRequest_def)

text \<open>
  Claim C1, as the code has it. For a request with all its fields: when at least one file
  was fetched, the later revision answers with a success whose files are not empty, and
  the earlier one with such a success or with the run-level error that all batches
  failed; when the listing could be read and no file was fetched, both answer with a
  success whose files are empty and a message; when the branch or the listing could not
  be read, the answer is a run-level error.
\<close>

theorem convert_files_nonempty_when_fetched:
  assumes "validRequest req tgt"
  shows "(\<forall>originals. fetchFiles w (branch req) = Inr originals \<and> originals \<noteq> [] \<longrightarrow>
            (\<exists>body. convert w req = Ok200 body \<and> files body \<noteq> [])) \<and>
         (fetchFiles w (branch req) = Inr [] \<longrightarrow>
            convert w req =
              Ok200 \<lparr>files = [], message = Some ''No relevant files found in repository'',
                      summary = None, warnings = None\<rparr>) \<and>
         (\<forall>err. fetchFiles w (branch req) = Inl err \<longrightarrow> convert w req = Error500 err) \<and>
         (\<forall>originals. fetchFiles_v1 w (branch req) = Inr originals \<and> originals \<noteq> [] \<longrightarrow>
            (\<exists>body. convert_v1 w req = Ok200_v1 body \<and> files_v1 body \<noteq> []) \<or>
            (\<exists>details. convert_v1 w req =
               Error500_v1 ''Conversion failed for all batches'' details)) \<and>
         (fetchFiles_v1 w (branch req) = Inr [] \<longrightarrow>
            convert_v1 w req =
              Ok200_v1 \<lparr>files_v1 = [], message_v1 = Some ''No code files found in repository'',
                         stats_v1 = None, warnings_v1 = None\<rparr>)"
proof -
  have a: "\<exists>body. convert w req = Ok200 body \<and> files body \<noteq> []"
    if "fetchFiles w (branch req) = Inr originals" "originals \<noteq> []" for originals
    using batchLoop_nonempty [OF that(2) fetchFiles_priority [OF that(1)], of w tgt sizeLimit]
      convert_fetched [OF assms that]
    by auto
  from a convert_empty [OF assms, of w] convert_fetch_failed [OF assms, of w]
    convert_v1_valid [OF assms, of w] convert_v1_empty [OF assms, of w]
  show ?thesis by blast
qed

theorem convert_files_nonempty_when_fetched_witness:
  "validRequest exampleRequest pythonTarget \<and>
   fetchFiles proseWorld (branch exampleRequest) = Inr [appFile] \<and>
   [appFile] \<noteq> [] \<and>
   (\<exists>body. convert proseWorld exampleRequest = Ok200 body \<and> files body \<noteq> [])"
proof -
  have v: "validRequest exampleRequest pythonTarget"
    by (rule exampleRequest_valid)
  have f: "fetchFiles proseWorld (branch exampleRequest) = Inr [appFile]"
    by (rule fetch_prose)
  have n: "[appFile] \<noteq> []"
    by simp
  from convert_files_nonempty_when_fetched [OF v, of proseWorld] f n
  have "\<exists>body. convert proseWorld exampleRequest = Ok200 body \<and> files body \<noteq> []"
    by blast
  with v f n show ?thesis by blast
qed

text \<open>
  Claim C1 as it is stated fails: the repository has a file the Selector accepts, every
  request for a file's content fails, and the answer is a success with no files.
\<close>

theorem empty_success_when_no_file_is_fetched:
  "tree_listing unreachableWorld =
     Inr [\<lparr>entry_path = ''src'', entry_type = ''tree''\<rparr>,
          \<lparr>entry_path = ''src/app.ts'', entry_type = ''blob''\<rparr>] \<and>
   isRelevantFile ''src/app.ts'' \<and> isCodeFile ''src/app.ts'' \<and>
   file_content unreachableWorld ''src/app.ts'' = None \<and>
   fetchFiles unreachableWorld (branch exampleRequest) = Inr [] \<and>
   convert unreachableWorld exampleRequest =
     Ok200 \<lparr>files = [], message = Some ''No relevant files found in repository'',
             summary = None, warnings = None\<rparr> \<and>
   convert_v1 unreachableWorld exampleRequest =
     Ok200_v1 \<lparr>files_v1 = [], message_v1 = Some ''No code files found in repository'',
                stats_v1 = None, warnings_v1 = None\<rparr>"
proof -
  have t: "tree_listing unreachableWorld =
     Inr [\<lparr>entry_path = ''src'', entry_type = ''tree''\<rparr>,
          \<lparr>entry_path = ''src/app.ts'', entry_type = ''blob''\<rparr>]"
    and c: "file_content unreachableWorld ''src/app.ts'' = None"
    by (simp_all add: unreachableWorld_def proseWorld_def)
  note f = fetch_unreachable [of "branch exampleRequest"]
  note v = exampleRequest_valid
  from t app_selected(1,2) c f convert_empty [OF v f]
    convert_v1_empty [OF v fetch_v1_unreachable]
  show ?thesis by blast
qed



end
